theory Spec2Isabelle
  imports Main
begin

section \<open>The declarations read by package def\<close>

text \<open>
  The validator of \<^verbatim>\<open>src/def/validate.go\<close> reads two package-level lists, \<^verbatim>\<open>types\<close>
  and \<^verbatim>\<open>models\<close>, whose element types are declared in other files of package
  \<^verbatim>\<open>def\<close>. Only what \<^verbatim>\<open>validate.go\<close> itself reads of them is kept: the flags of a
  field (\<^verbatim>\<open>nullFlag\<close>, \<^verbatim>\<open>tagFlag{key, value}\<close>), the five kinds of model item matched
  by the type switch of \<^verbatim>\<open>makeModel\<close>, and a type entry with a name and an info that
  is either a \<^verbatim>\<open>structType\<close> (with items) or something else.
\<close>

datatype FieldFlag = nullFlag | tagFlag string string

datatype ModelItem =
    field string string "FieldFlag list"
  | primaryKey "string list"
  | index "string list"
  | unique "string list"
  | foreignKey string string

text \<open>
  Modelled from the spec: the info of a declared type (section 6, ordered type
  declarations of kind Base or Struct). A struct carries its items; a base type
  carries the database type string that \<^verbatim>\<open>TypeDB()\<close> returns, the rest of its binding
  being opaque to the validator.
\<close>

datatype typeInfo = structType "ModelItem list" | baseInfo string

record typeEntry =
  te_name :: string
  te_info :: typeInfo

record modelEntry =
  me_name :: string
  me_items :: "ModelItem list"

section \<open>Package schema\<close>

text \<open>
  Package \<^verbatim>\<open>schema\<close> is imported by \<^verbatim>\<open>validate.go\<close> and is not part of the sources.
  Its structs are records holding the fields that \<^verbatim>\<open>validate.go\<close> reads or writes;
  a Go pointer that may be \<^verbatim>\<open>nil\<close> (\<^verbatim>\<open>Model.PrimaryKey\<close>) is an option. A field left out
  of a composite literal has Go's zero value (the empty string).
\<close>

datatype TypeGo = TypeGo string string

text \<open>
  Modelled from the spec: a schema type is a Struct or a Base type (section 3). The
  type switch of \<^verbatim>\<open>makeModel\<close> has a third, default branch that panics; its comment says
  it can not be reached because every type but Struct implements \<^verbatim>\<open>schema.BaseType\<close>,
  and so this datatype has no value for it.
\<close>

datatype schema_Type =
    Struct string
  | BaseType string string
  | BaseTypeNullable string TypeGo TypeGo string

fun TypeDB :: "schema_Type \<Rightarrow> string" where
  "TypeDB (BaseType n db) = db"
| "TypeDB (BaseTypeNullable n g gn pg) = pg"
| "TypeDB (Struct n) = []"

record schema_Field =
  F_Name :: string
  F_Type :: schema_Type
  F_Nullable :: bool
  F_Tags :: "string \<rightharpoonup> string"

record schema_Column =
  C_Name :: string
  C_Type :: schema_Type
  C_DBType :: string
  C_Nullable :: bool

record schema_PrimaryKey =
  PK_Columns :: "string list"

record schema_Index =
  I_Name :: string
  I_Columns :: "string list"

record schema_Unique =
  U_Name :: string
  U_Columns :: "string list"

record schema_ForeignKey =
  FK_Name :: string
  FK_Model :: string
  FK_Column :: string
  FK_ForeignModel :: string
  FK_ForeignColumn :: string

record schema_Model =
  M_Name :: string
  M_Fields :: "schema_Field list"
  M_Columns :: "schema_Column list"
  M_PrimaryKey :: "schema_PrimaryKey option"
  M_Indexes :: "schema_Index list"
  M_Uniques :: "schema_Unique list"
  M_ForeignKeys :: "schema_ForeignKey list"

record schema_Schema =
  Types :: "string \<rightharpoonup> schema_Type"
  Models :: "string \<rightharpoonup> schema_Model"

text \<open>Modelled from the spec: \<^verbatim>\<open>schema.NewSchema()\<close> is a schema with no type and no model.\<close>

definition NewSchema :: schema_Schema where
  "NewSchema = \<lparr>Types = Map.empty, Models = Map.empty\<rparr>"

text \<open>
  Modelled from the spec: \<^verbatim>\<open>t.info.getType(t.name)\<close>, the schema type registered for a
  declared type. A struct declaration gives a Struct, a base declaration a Base type.
\<close>

fun getType :: "typeInfo \<Rightarrow> string \<Rightarrow> schema_Type" where
  "getType (structType items) n = Struct n"
| "getType (baseInfo db) n = BaseType n db"

text \<open>
  Modelled from the spec: \<^verbatim>\<open>m.FindColumn(name)\<close> is the column of the model with that
  name, or \<^verbatim>\<open>nil\<close> (the checks of section 4.3: referenced columns must exist).
\<close>

definition FindColumn :: "schema_Model \<Rightarrow> string \<Rightarrow> schema_Column option" where
  "FindColumn m n = find (\<lambda>c. C_Name c = n) (M_Columns m)"

section \<open>Package state, results and formatting\<close>

text \<open>
  \<^verbatim>\<open>validationErrors\<close> and \<^verbatim>\<open>typesByName\<close> are package-level variables: they are the
  state threaded through every function. An error value is the string that
  \<^verbatim>\<open>Error()\<close> returns.
\<close>

record globals =
  validationErrors :: "string list"
  typesByName :: "string \<rightharpoonup> typeEntry"

definition addError :: "string \<Rightarrow> globals \<Rightarrow> globals" where
  "addError msg g = g\<lparr>validationErrors := validationErrors g @ [msg]\<rparr>"

text \<open>
  The statement \<^verbatim>\<open>if c { addError(...) }\<close>, as a function of the state: it is run
  when the condition holds and is skipped otherwise.
\<close>

definition ifThen :: "bool \<Rightarrow> (globals \<Rightarrow> globals) \<Rightarrow> globals \<Rightarrow> globals" where
  "ifThen c f g = (if c then f g else g)"

text \<open>
  A call returns, panics, or recurses deeper than the fuel it was given (the
  flattening of \<^verbatim>\<open>makeModel\<close> is not guarded against struct types that contain
  themselves).
\<close>

datatype panic = nil_dereference | index_out_of_range | interface_conversion

datatype 'a result = Return 'a | Panic panic | Exhausted

definition sq :: string where
  "sq = [CHR 0x27]"

definition quoted :: "string \<Rightarrow> string" where
  "quoted x = sq @ x @ sq"

definition nl :: string where
  "nl = [CHR 0x0A]"

fun join :: "string \<Rightarrow> string list \<Rightarrow> string" where
  "join sep [] = []"
| "join sep [x] = x"
| "join sep (x # y # ys) = x @ sep @ join sep (y # ys)"

function decimal :: "nat \<Rightarrow> string" where
  "decimal n = (if n < 10 then [''0123456789'' ! n] else decimal (n div 10) @ [''0123456789'' ! (n mod 10)])"
  by pat_completeness auto
termination
  by (relation "measure id") auto

declare decimal.simps [simp del]

text \<open>
  The diagnostics, one definition for each format string of \<^verbatim>\<open>validate.go\<close>, with the
  line of its \<^verbatim>\<open>addError\<close>. Every verb is \<^verbatim>\<open>%s\<close> but the \<^verbatim>\<open>%d\<close> of line 73.
\<close>

definition msg_type_twice :: "string \<Rightarrow> string" where
  \<comment> \<open>line 26\<close>
  "msg_type_twice n = ''Type '' @ quoted n @ '' is defined multiple times''"

definition msg_type_unknown :: "string \<Rightarrow> string \<Rightarrow> string \<Rightarrow> string" where
  \<comment> \<open>lines 38 to 41\<close>
  "msg_type_unknown tn ctx n =
     ''Type '' @ quoted tn @ (if ctx \<noteq> [] then '' '' @ ctx else ctx)
       @ '' references unknown type '' @ quoted n"

definition msg_model_twice :: "string \<Rightarrow> string" where
  \<comment> \<open>line 50\<close>
  "msg_model_twice n = ''Model '' @ quoted n @ '' is defined multiple times''"

definition msg_duplicate_tag :: "string \<Rightarrow> string \<Rightarrow> string" where
  \<comment> \<open>line 91\<close>
  "msg_duplicate_tag ctx k = ctx @ '' has duplicate tag '' @ quoted k"

definition msg_field_unknown_type :: "string \<Rightarrow> string \<Rightarrow> string \<Rightarrow> string" where
  \<comment> \<open>line 134\<close>
  "msg_field_unknown_type model path typeName =
     ''Model '' @ quoted model @ '' field '' @ quoted path @ '' references unknown type '' @ quoted typeName"

definition field_context :: "string \<Rightarrow> string \<Rightarrow> string" where
  \<comment> \<open>line 145\<close>
  "field_context model path = ''Model '' @ quoted model @ '' field '' @ quoted path"

definition msg_multiple_primary_keys :: "string \<Rightarrow> string" where
  \<comment> \<open>line 187\<close>
  "msg_multiple_primary_keys model = ''Model '' @ quoted model @ '' has multiple primary key definitions''"

definition msg_field_twice :: "string \<Rightarrow> string \<Rightarrow> string" where
  \<comment> \<open>line 220\<close>
  "msg_field_twice model f = ''Model '' @ quoted model @ '' field '' @ quoted f @ '' is defined multiple times.''"

definition msg_missing_primary_key :: "string \<Rightarrow> string" where
  \<comment> \<open>line 234\<close>
  "msg_missing_primary_key model = ''Model '' @ quoted model @ '' is missing a primary key''"

definition msg_primary_key_unknown_column :: "string \<Rightarrow> string \<Rightarrow> string" where
  \<comment> \<open>line 239\<close>
  "msg_primary_key_unknown_column model n =
     ''Model '' @ quoted model @ '' primary key references unknown column '' @ quoted n"

definition msg_primary_key_nullable_column :: "string \<Rightarrow> string \<Rightarrow> string" where
  \<comment> \<open>line 241\<close>
  "msg_primary_key_nullable_column model n =
     ''Model '' @ quoted model @ '' primary key references nullable column '' @ quoted n"

definition msg_constraint_twice :: "string \<Rightarrow> string \<Rightarrow> string \<Rightarrow> string" where
  \<comment> \<open>lines 253 and 272; the kind is index or unique, \<^verbatim>\<open>d\<close> is \<^verbatim>\<open>describeIndex(f.Columns)\<close>\<close>
  "msg_constraint_twice model kind d =
     ''Model '' @ quoted model @ '' '' @ kind @ '' '' @ quoted d @ '' is defined multiple times.''"

definition msg_constraint_unknown_column :: "string \<Rightarrow> string \<Rightarrow> string \<Rightarrow> string \<Rightarrow> string" where
  \<comment> \<open>lines 260 and 279\<close>
  "msg_constraint_unknown_column model kind d n =
     ''Model '' @ quoted model @ '' '' @ kind @ '' '' @ quoted d @ '' references unknown column '' @ quoted n"

definition msg_foreign_key_no_field :: "string \<Rightarrow> string \<Rightarrow> string" where
  \<comment> \<open>line 291\<close>
  "msg_foreign_key_no_field model c =
     ''Model '' @ quoted model @ '' has a foreign key on non-existing field '' @ quoted c"

definition msg_foreign_key_no_model :: "string \<Rightarrow> string \<Rightarrow> string \<Rightarrow> string" where
  \<comment> \<open>line 296\<close>
  "msg_foreign_key_no_model model c fm =
     ''Model '' @ quoted model @ '' field '' @ quoted c @ '' has foreign key to non-existing model '' @ quoted fm"

definition msg_foreign_key_multi_column :: "string \<Rightarrow> string \<Rightarrow> string \<Rightarrow> string" where
  \<comment> \<open>line 300\<close>
  "msg_foreign_key_multi_column model c fm =
     ''Model '' @ quoted model @ '' field '' @ quoted c
       @ '' has foreign key to model with multi-column primary key '' @ quoted fm"

section \<open>Helpers of validate.go\<close>

fun makeTags_loop :: "FieldFlag list \<Rightarrow> string \<Rightarrow> (string \<rightharpoonup> string) \<times> globals \<Rightarrow> (string \<rightharpoonup> string) \<times> globals" where
  "makeTags_loop [] ctx st = st"
| "makeTags_loop (nullFlag # flags) ctx st = makeTags_loop flags ctx st"
| "makeTags_loop (tagFlag k v # flags) ctx (res, g) =
     makeTags_loop flags ctx
       (res(k \<mapsto> v),
        ifThen (res k \<noteq> None) (addError (msg_duplicate_tag ctx k)) g)"

definition makeTags :: "FieldFlag list \<Rightarrow> string \<Rightarrow> globals \<Rightarrow> (string \<rightharpoonup> string) \<times> globals" where
  "makeTags flags ctx g = makeTags_loop flags ctx (Map.empty, g)"

fun isNullable :: "FieldFlag list \<Rightarrow> bool" where
  "isNullable [] = False"
| "isNullable (nullFlag # flags) = True"
| "isNullable (tagFlag k v # flags) = isNullable flags"

definition undot :: "string \<Rightarrow> string" where
  "undot s = concat (map (\<lambda>c. if c = CHR ''.'' then ''__'' else [c]) s)"

definition undotAll :: "string list \<Rightarrow> string list" where
  "undotAll s = map undot s"

definition prefixAll :: "string list \<Rightarrow> string \<Rightarrow> string list" where
  "prefixAll s prefix = map (\<lambda>x. prefix @ x) s"

definition makeName :: "string \<Rightarrow> string list \<Rightarrow> string \<Rightarrow> string" where
  "makeName model columns suffix = model @ ''___'' @ join ''___'' columns @ ''___'' @ suffix"

definition describeIndex :: "string list \<Rightarrow> string" where
  "describeIndex columns = join '', '' columns"

section \<open>makeModel\<close>

definition presenceColumn :: "string \<Rightarrow> bool \<Rightarrow> schema_Column" where
  "presenceColumn path forceNullable =
     \<lparr>C_Name = undot path,
      C_Type = BaseTypeNullable ''bool'' (TypeGo [] ''bool'')
                 (TypeGo ''github.com/kernelpayments/sqlbunny/types/null'' ''Bool'') ''boolean'',
      C_DBType = ''boolean'',
      C_Nullable = forceNullable\<rparr>"

definition baseColumn :: "string \<Rightarrow> schema_Type \<Rightarrow> bool \<Rightarrow> schema_Column" where
  "baseColumn path t nullable =
     \<lparr>C_Name = undot path, C_Type = t, C_DBType = TypeDB t, C_Nullable = nullable\<rparr>"

text \<open>Lines 140 to 148: a field at the top level (empty prefix) is appended to \<^verbatim>\<open>m.Fields\<close>.\<close>

definition appendField :: "string \<Rightarrow> schema_Type \<Rightarrow> FieldFlag list \<Rightarrow> string \<Rightarrow> bool \<Rightarrow>
    schema_Model \<times> globals \<Rightarrow> schema_Model \<times> globals" where
  "appendField n t flags prefix forceNullable st =
     (case st of (m, g) \<Rightarrow>
        if prefix = [] then
          (case makeTags flags (field_context (M_Name m) (prefix @ n)) g of
             (tags, g') \<Rightarrow>
               (m\<lparr>M_Fields := M_Fields m @
                    [\<lparr>F_Name = n, F_Type = t,
                      F_Nullable = (isNullable flags \<or> forceNullable), F_Tags = tags\<rparr>]\<rparr>, g'))
        else (m, g))"

definition appendColumn :: "schema_Column \<Rightarrow> schema_Model \<Rightarrow> schema_Model" where
  "appendColumn c m = m\<lparr>M_Columns := M_Columns m @ [c]\<rparr>"

text \<open>
  The loop over the items is the recursion on the list; the recursive call of line
  153 spends one unit of fuel. The type assertion of line 152 panics when the entry
  of \<^verbatim>\<open>typesByName\<close> is not a \<^verbatim>\<open>structType\<close>.
\<close>

fun makeModel :: "nat \<Rightarrow> schema_Schema \<Rightarrow> ModelItem list \<Rightarrow> string \<Rightarrow> bool \<Rightarrow>
    schema_Model \<times> globals \<Rightarrow> (schema_Model \<times> globals) result" where
  "makeModel fuel s [] prefix forceNullable st = Return st"
| "makeModel fuel s (field n typeName flags # items) prefix forceNullable st =
     (case Types s typeName of
        None \<Rightarrow>
          makeModel fuel s items prefix forceNullable
            (apsnd (addError (msg_field_unknown_type (M_Name (fst st)) (prefix @ n) typeName)) st)
      | Some t \<Rightarrow>
          (case t of
             Struct sn \<Rightarrow>
               (case typesByName (snd (appendField n t flags prefix forceNullable st)) typeName of
                  None \<Rightarrow> Panic interface_conversion
                | Some e \<Rightarrow>
                    (case te_info e of
                       baseInfo db \<Rightarrow> Panic interface_conversion
                     | structType sitems \<Rightarrow>
                         (case fuel of
                            0 \<Rightarrow> Exhausted
                          | Suc k \<Rightarrow>
                              (case makeModel k s sitems (prefix @ n @ ''.'')
                                      (isNullable flags \<or> forceNullable)
                                      (appendField n t flags prefix forceNullable st) of
                                 Return st' \<Rightarrow>
                                   makeModel fuel s items prefix forceNullable
                                     (if isNullable flags
                                      then apfst (appendColumn (presenceColumn (prefix @ n) forceNullable)) st'
                                      else st')
                               | Panic p \<Rightarrow> Panic p
                               | Exhausted \<Rightarrow> Exhausted))))
           | _ \<Rightarrow>
               makeModel fuel s items prefix forceNullable
                 (apfst (appendColumn (baseColumn (prefix @ n) t (isNullable flags \<or> forceNullable)))
                    (appendField n t flags prefix forceNullable st))))"
| "makeModel fuel s (primaryKey names # items) prefix forceNullable st =
     makeModel fuel s items prefix forceNullable
       ((fst st)\<lparr>M_PrimaryKey := Some \<lparr>PK_Columns = undotAll (prefixAll names prefix)\<rparr>\<rparr>,
        ifThen (M_PrimaryKey (fst st) \<noteq> None)
          (addError (msg_multiple_primary_keys (M_Name (fst st)))) (snd st))"
| "makeModel fuel s (index names # items) prefix forceNullable st =
     makeModel fuel s items prefix forceNullable
       ((fst st)\<lparr>M_Indexes := M_Indexes (fst st) @
           [\<lparr>I_Name = [], I_Columns = undotAll (prefixAll names prefix)\<rparr>]\<rparr>, snd st)"
| "makeModel fuel s (unique names # items) prefix forceNullable st =
     makeModel fuel s items prefix forceNullable
       ((fst st)\<lparr>M_Uniques := M_Uniques (fst st) @
           [\<lparr>U_Name = [], U_Columns = undotAll (prefixAll names prefix)\<rparr>]\<rparr>, snd st)"
| "makeModel fuel s (foreignKey columnName foreignModelName # items) prefix forceNullable st =
     makeModel fuel s items prefix forceNullable
       ((fst st)\<lparr>M_ForeignKeys := M_ForeignKeys (fst st) @
           [\<lparr>FK_Name = [], FK_Model = M_Name (fst st), FK_Column = undot (prefix @ columnName),
             FK_ForeignModel = foreignModelName, FK_ForeignColumn = []\<rparr>]\<rparr>, snd st)"

section \<open>The checks run on every model\<close>

fun checkDuplicateFields_loop :: "schema_Model \<Rightarrow> schema_Field list \<Rightarrow> string set \<Rightarrow> globals \<Rightarrow> globals" where
  "checkDuplicateFields_loop m [] seen g = g"
| "checkDuplicateFields_loop m (f # fs) seen g =
     checkDuplicateFields_loop m fs (insert (F_Name f) seen)
       (ifThen (F_Name f \<in> seen) (addError (msg_field_twice (M_Name m) (F_Name f))) g)"

definition checkDuplicateFields :: "schema_Schema \<Rightarrow> schema_Model \<Rightarrow> globals \<Rightarrow> globals" where
  "checkDuplicateFields s m g = checkDuplicateFields_loop m (M_Fields m) {} g"

fun checkPrimaryKey_loop :: "schema_Model \<Rightarrow> string list \<Rightarrow> globals \<Rightarrow> globals" where
  "checkPrimaryKey_loop m [] g = g"
| "checkPrimaryKey_loop m (n # ns) g =
     checkPrimaryKey_loop m ns
       (case FindColumn m n of
          None \<Rightarrow> addError (msg_primary_key_unknown_column (M_Name m) n) g
        | Some c \<Rightarrow>
            ifThen (C_Nullable c) (addError (msg_primary_key_nullable_column (M_Name m) n)) g)"

definition checkPrimaryKey :: "schema_Schema \<Rightarrow> schema_Model \<Rightarrow> globals \<Rightarrow> globals" where
  "checkPrimaryKey s m g =
     (case M_PrimaryKey m of
        None \<Rightarrow> addError (msg_missing_primary_key (M_Name m)) g
      | Some pk \<Rightarrow> checkPrimaryKey_loop m (PK_Columns pk) g)"

text \<open>
  The inner loop of lines 257 to 262 (and 276 to 281): \<^verbatim>\<open>kind\<close> is \<^verbatim>\<open>index\<close> or
  \<^verbatim>\<open>unique\<close>, \<^verbatim>\<open>cols\<close> the column list of the constraint being checked.
\<close>

fun checkColumns_loop :: "schema_Model \<Rightarrow> string \<Rightarrow> string list \<Rightarrow> string list \<Rightarrow> globals \<Rightarrow> globals" where
  "checkColumns_loop m kind cols [] g = g"
| "checkColumns_loop m kind cols (n # ns) g =
     checkColumns_loop m kind cols ns
       (case FindColumn m n of
          None \<Rightarrow> addError (msg_constraint_unknown_column (M_Name m) kind (describeIndex cols) n) g
        | Some c \<Rightarrow> g)"

text \<open>
  The constraints of a model are reached through pointers and renamed in place; the
  loops return the list of the constraints as they are after the loop, in the first
  component of the accumulator.
\<close>

fun checkIndexes_loop :: "schema_Model \<Rightarrow> schema_Index list \<Rightarrow> string set \<Rightarrow>
    schema_Index list \<times> globals \<Rightarrow> schema_Index list \<times> globals" where
  "checkIndexes_loop m [] seen st = st"
| "checkIndexes_loop m (f # fs) seen st =
     checkIndexes_loop m fs (insert (makeName (M_Name m) (I_Columns f) ''idx'') seen)
       (fst st @ [f\<lparr>I_Name := makeName (M_Name m) (I_Columns f) ''idx''\<rparr>],
        checkColumns_loop m ''index'' (I_Columns f) (I_Columns f)
          (ifThen (makeName (M_Name m) (I_Columns f) ''idx'' \<in> seen)
             (addError (msg_constraint_twice (M_Name m) ''index'' (describeIndex (I_Columns f))))
             (snd st)))"

definition checkIndexes :: "schema_Schema \<Rightarrow> schema_Model \<times> globals \<Rightarrow> schema_Model \<times> globals" where
  "checkIndexes s st =
     (case checkIndexes_loop (fst st) (M_Indexes (fst st)) {} ([], snd st) of
        (ixs, g) \<Rightarrow> ((fst st)\<lparr>M_Indexes := ixs\<rparr>, g))"

fun checkUniques_loop :: "schema_Model \<Rightarrow> schema_Unique list \<Rightarrow> string set \<Rightarrow>
    schema_Unique list \<times> globals \<Rightarrow> schema_Unique list \<times> globals" where
  "checkUniques_loop m [] seen st = st"
| "checkUniques_loop m (f # fs) seen st =
     checkUniques_loop m fs (insert (makeName (M_Name m) (U_Columns f) ''key'') seen)
       (fst st @ [f\<lparr>U_Name := makeName (M_Name m) (U_Columns f) ''key''\<rparr>],
        checkColumns_loop m ''unique'' (U_Columns f) (U_Columns f)
          (ifThen (makeName (M_Name m) (U_Columns f) ''key'' \<in> seen)
             (addError (msg_constraint_twice (M_Name m) ''unique'' (describeIndex (U_Columns f))))
             (snd st)))"

definition checkUniques :: "schema_Schema \<Rightarrow> schema_Model \<times> globals \<Rightarrow> schema_Model \<times> globals" where
  "checkUniques s st =
     (case checkUniques_loop (fst st) (M_Uniques (fst st)) {} ([], snd st) of
        (us, g) \<Rightarrow> ((fst st)\<lparr>M_Uniques := us\<rparr>, g))"

text \<open>
  Lines 289 to 292 of \<^verbatim>\<open>checkForeignKeys\<close>: the source column must exist.
\<close>

definition checkForeignKeyColumn :: "schema_Model \<Rightarrow> schema_ForeignKey \<Rightarrow> globals \<Rightarrow> globals" where
  "checkForeignKeyColumn m f g =
     (case FindColumn m (FK_Column f) of
        None \<Rightarrow> addError (msg_foreign_key_no_field (M_Name m) (FK_Column f)) g
      | Some c \<Rightarrow> g)"

text \<open>
  Lines 294 to 303. \<^verbatim>\<open>m2.PrimaryKey.Columns\<close> dereferences the primary key of the
  target model, a nil pointer when the target declared none; \<^verbatim>\<open>Columns[0]\<close> is out
  of range when the column list is empty. Both are run-time panics of Go. After
  the diagnostic of line 300 the loop body goes on to line 302.
\<close>

fun checkForeignKeys_loop :: "schema_Schema \<Rightarrow> schema_Model \<Rightarrow> schema_ForeignKey list \<Rightarrow>
    schema_ForeignKey list \<times> globals \<Rightarrow> (schema_ForeignKey list \<times> globals) result" where
  "checkForeignKeys_loop s m [] st = Return st"
| "checkForeignKeys_loop s m (f # fs) st =
     (case Models s (FK_ForeignModel f) of
        None \<Rightarrow>
          checkForeignKeys_loop s m fs
            (fst st @ [f\<lparr>FK_Name := makeName (M_Name m) [FK_Column f] ''fkey''\<rparr>],
             addError (msg_foreign_key_no_model (M_Name m) (FK_Column f) (FK_ForeignModel f))
               (checkForeignKeyColumn m f (snd st)))
      | Some m2 \<Rightarrow>
          (case M_PrimaryKey m2 of
             None \<Rightarrow> Panic nil_dereference
           | Some pk \<Rightarrow>
               (case PK_Columns pk of
                  [] \<Rightarrow> Panic index_out_of_range
                | ff # rest \<Rightarrow>
                    checkForeignKeys_loop s m fs
                      (fst st @ [f\<lparr>FK_Name := makeName (M_Name m) [FK_Column f] ''fkey'',
                                   FK_ForeignColumn := ff\<rparr>],
                       ifThen (length (PK_Columns pk) \<noteq> 1)
                         (addError (msg_foreign_key_multi_column (M_Name m) (FK_Column f) (FK_ForeignModel f)))
                         (checkForeignKeyColumn m f (snd st))))))"

definition checkForeignKeys :: "schema_Schema \<Rightarrow> schema_Model \<times> globals \<Rightarrow> (schema_Model \<times> globals) result" where
  "checkForeignKeys s st =
     (case checkForeignKeys_loop s (fst st) (M_ForeignKeys (fst st)) ([], snd st) of
        Return (fks, g) \<Rightarrow> Return ((fst st)\<lparr>M_ForeignKeys := fks\<rparr>, g)
      | Panic p \<Rightarrow> Panic p
      | Exhausted \<Rightarrow> Exhausted)"

section \<open>Schema\<close>

text \<open>
  Two collaborators of \<^verbatim>\<open>Schema()\<close> are not in the sources and are parameters of the
  model. Modelled from the spec: \<^verbatim>\<open>t.info.resolveTypes\<close> looks up, through the callback
  it is given, every type the info references by name, each with a context string
  (section 4.1); \<^verbatim>\<open>ext_references\<close> lists these lookups in the order they are made.
  \<^verbatim>\<open>s.CalculateRelationships()\<close> is the relationship calculator of section 2, which
  works on the validated schema.
\<close>

record externals =
  ext_references :: "typeInfo \<Rightarrow> (string \<times> string) list"
  ext_CalculateRelationships :: "schema_Schema \<Rightarrow> schema_Schema"

text \<open>Lines 24 to 30.\<close>

fun Schema_registerTypes :: "typeEntry list \<Rightarrow> schema_Schema \<times> globals \<Rightarrow> schema_Schema \<times> globals" where
  "Schema_registerTypes [] st = st"
| "Schema_registerTypes (t # ts) st =
     Schema_registerTypes ts
       ((fst st)\<lparr>Types := (Types (fst st))(te_name t \<mapsto> getType (te_info t) (te_name t))\<rparr>,
        (ifThen (Types (fst st) (te_name t) \<noteq> None) (addError (msg_type_twice (te_name t))) (snd st))
          \<lparr>typesByName := (typesByName (snd st))(te_name t \<mapsto> t)\<rparr>)"

text \<open>Lines 35 to 44: the callback handed to \<^verbatim>\<open>resolveTypes\<close>, and the calls made to it.\<close>

fun Schema_lookups :: "schema_Schema \<Rightarrow> string \<Rightarrow> (string \<times> string) list \<Rightarrow> globals \<Rightarrow> globals" where
  "Schema_lookups s tn [] g = g"
| "Schema_lookups s tn ((n, ctx) # rs) g =
     Schema_lookups s tn rs
       (ifThen (Types s n = None) (addError (msg_type_unknown tn ctx n)) g)"

fun Schema_resolveTypes :: "externals \<Rightarrow> schema_Schema \<Rightarrow> typeEntry list \<Rightarrow> globals \<Rightarrow> globals" where
  "Schema_resolveTypes ext s [] g = g"
| "Schema_resolveTypes ext s (t # ts) g =
     Schema_resolveTypes ext s ts (Schema_lookups s (te_name t) (ext_references ext (te_info t)) g)"

definition newModel :: "string \<Rightarrow> schema_Model" where
  "newModel n = \<lparr>M_Name = n, M_Fields = [], M_Columns = [], M_PrimaryKey = None,
     M_Indexes = [], M_Uniques = [], M_ForeignKeys = []\<rparr>"

text \<open>
  Lines 48 to 58. The new model is stored in \<^verbatim>\<open>s.Models\<close> before \<^verbatim>\<open>makeModel\<close> fills it
  through its pointer; the map holds the filled model once \<^verbatim>\<open>makeModel\<close> has returned.
\<close>

fun Schema_registerModels :: "nat \<Rightarrow> modelEntry list \<Rightarrow> schema_Schema \<times> globals \<Rightarrow>
    (schema_Schema \<times> globals) result" where
  "Schema_registerModels fuel [] st = Return st"
| "Schema_registerModels fuel (me # ms) st =
     (case makeModel fuel
             ((fst st)\<lparr>Models := (Models (fst st))(me_name me \<mapsto> newModel (me_name me))\<rparr>)
             (me_items me) [] False
             (newModel (me_name me),
              ifThen (Models (fst st) (me_name me) \<noteq> None) (addError (msg_model_twice (me_name me)))
                (snd st)) of
        Return (m, g) \<Rightarrow>
          Schema_registerModels fuel ms ((fst st)\<lparr>Models := (Models (fst st))(me_name me \<mapsto> m)\<rparr>, g)
      | Panic p \<Rightarrow> Panic p
      | Exhausted \<Rightarrow> Exhausted)"

text \<open>Lines 61 to 65: the five checks, in order, on one model.\<close>

definition checkModel :: "schema_Schema \<Rightarrow> schema_Model \<Rightarrow> globals \<Rightarrow> (schema_Model \<times> globals) result" where
  "checkModel s m g =
     checkForeignKeys s
       (checkUniques s (checkIndexes s (m, checkPrimaryKey s m (checkDuplicateFields s m g))))"

text \<open>
  Line 60 ranges over the map \<^verbatim>\<open>s.Models\<close>, in an order Go leaves unspecified: the
  order is the parameter \<^verbatim>\<open>ord\<close>, a list of the keys of the map. A name that is
  not a key is passed over.
\<close>

fun Schema_checkModels :: "string list \<Rightarrow> schema_Schema \<times> globals \<Rightarrow> (schema_Schema \<times> globals) result" where
  "Schema_checkModels [] st = Return st"
| "Schema_checkModels (n # ns) st =
     (case Models (fst st) n of
        None \<Rightarrow> Schema_checkModels ns st
      | Some m \<Rightarrow>
          (case checkModel (fst st) m (snd st) of
             Return (m', g) \<Rightarrow>
               Schema_checkModels ns ((fst st)\<lparr>Models := (Models (fst st))(n \<mapsto> m')\<rparr>, g)
           | Panic p \<Rightarrow> Panic p
           | Exhausted \<Rightarrow> Exhausted))"

text \<open>Lines 71 to 79: the body of the aggregate error.\<close>

definition errorsFound :: "string list \<Rightarrow> string" where
  "errorsFound es = decimal (length es) @ '' errors found:'' @ nl @ concat (map (\<lambda>e. e @ nl) es)"

text \<open>
  Lines 71 to 83. The two results of Go are one sum: \<^verbatim>\<open>Inl msg\<close> is the pair of
  a nil schema and the error \<^verbatim>\<open>errors.New(msg)\<close>, \<^verbatim>\<open>Inr s\<close> the pair of the schema and a
  nil error.
\<close>

definition Schema_finish :: "externals \<Rightarrow> schema_Schema \<times> globals \<Rightarrow> (string + schema_Schema) \<times> globals" where
  "Schema_finish ext st =
     (if length (validationErrors (snd st)) \<noteq> 0
      then (Inl (errorsFound (validationErrors (snd st))), snd st)
      else (Inr (ext_CalculateRelationships ext (fst st)), snd st))"

text \<open>
  Everything up to line 66: the schema and the package state when the checks are
  done. \<^verbatim>\<open>typesByName\<close> is made anew at line 22; \<^verbatim>\<open>validationErrors\<close> is not.
\<close>

definition Schema_validate :: "externals \<Rightarrow> string list \<Rightarrow> nat \<Rightarrow> typeEntry list \<Rightarrow> modelEntry list \<Rightarrow>
    globals \<Rightarrow> (schema_Schema \<times> globals) result" where
  "Schema_validate ext ord fuel types models g =
     (case Schema_registerTypes types (NewSchema, g\<lparr>typesByName := Map.empty\<rparr>) of
        (s, g1) \<Rightarrow>
          (case Schema_registerModels fuel models (s, Schema_resolveTypes ext s types g1) of
             Return st \<Rightarrow> Schema_checkModels ord st
           | Panic p \<Rightarrow> Panic p
           | Exhausted \<Rightarrow> Exhausted))"

definition Schema :: "externals \<Rightarrow> string list \<Rightarrow> nat \<Rightarrow> typeEntry list \<Rightarrow> modelEntry list \<Rightarrow>
    globals \<Rightarrow> ((string + schema_Schema) \<times> globals) result" where
  "Schema ext ord fuel types models g =
     (case Schema_validate ext ord fuel types models g of
        Return st \<Rightarrow> Return (Schema_finish ext st)
      | Panic p \<Rightarrow> Panic p
      | Exhausted \<Rightarrow> Exhausted)"

section \<open>Notions used in the statements\<close>

text \<open>
  \<^verbatim>\<open>earlier e g\<close> is the state \<^verbatim>\<open>g\<close> with the diagnostics \<^verbatim>\<open>e\<close> already in the list
  when the run began; \<^verbatim>\<open>recorded g g'\<close> are the diagnostics appended between the
  states \<^verbatim>\<open>g\<close> and \<^verbatim>\<open>g'\<close>.
\<close>

definition earlier :: "string list \<Rightarrow> globals \<Rightarrow> globals" where
  "earlier e g = g\<lparr>validationErrors := e @ validationErrors g\<rparr>"

definition recorded :: "globals \<Rightarrow> globals \<Rightarrow> string list" where
  "recorded g g' = drop (length (validationErrors g)) (validationErrors g')"

text \<open>
  The inputs of the examples: a process that has recorded nothing yet, collaborators
  that look nothing up and leave the schema as it is, two base types, and the two
  scenarios of section 8 of the specification.
\<close>

definition fresh :: globals where
  "fresh = \<lparr>validationErrors = [], typesByName = Map.empty\<rparr>"

definition plain_externals :: externals where
  "plain_externals = \<lparr>ext_references = (\<lambda>i. []), ext_CalculateRelationships = (\<lambda>s. s)\<rparr>"

definition base_types :: "typeEntry list" where
  "base_types = [\<lparr>te_name = ''int'', te_info = baseInfo ''integer''\<rparr>,
                 \<lparr>te_name = ''decimal'', te_info = baseInfo ''numeric''\<rparr>]"

definition scenario_A :: "modelEntry list" where
  "scenario_A =
     [\<lparr>me_name = ''User'', me_items = [field ''id'' ''int'' [], primaryKey [''id'']]\<rparr>,
      \<lparr>me_name = ''Post'',
        me_items = [field ''id'' ''int'' [], field ''author_id'' ''int'' [], primaryKey [''id''],
                    foreignKey ''author_id'' ''User'']\<rparr>]"

definition scenario_B :: "modelEntry list" where
  "scenario_B =
     [\<lparr>me_name = ''Order'', me_items = [field ''total'' ''decimal'' [nullFlag], primaryKey [''total'']]\<rparr>]"

text \<open>The package state that the run of scenario B leaves behind.\<close>

definition after_scenario_B :: globals where
  "after_scenario_B =
     \<lparr>validationErrors = [msg_primary_key_nullable_column ''Order'' ''total''],
      typesByName = [''int'' \<mapsto> \<lparr>te_name = ''int'', te_info = baseInfo ''integer''\<rparr>,
                     ''decimal'' \<mapsto> \<lparr>te_name = ''decimal'', te_info = baseInfo ''numeric''\<rparr>]\<rparr>"

text \<open>
  A model as \<^verbatim>\<open>makeModel\<close> builds it for scenario B, and a model with two indexes on
  the same columns, an index on a column that does not exist, and two uniques on the
  same column.
\<close>

definition order_model :: schema_Model where
  "order_model = \<lparr>M_Name = ''Order'',
      M_Fields = [\<lparr>F_Name = ''total'', F_Type = BaseType ''decimal'' ''numeric'', F_Nullable = True, F_Tags = Map.empty\<rparr>],
      M_Columns = [\<lparr>C_Name = ''total'', C_Type = BaseType ''decimal'' ''numeric'', C_DBType = ''numeric'', C_Nullable = True\<rparr>],
      M_PrimaryKey = Some \<lparr>PK_Columns = [''total'']\<rparr>,
      M_Indexes = [], M_Uniques = [], M_ForeignKeys = []\<rparr>"

definition indexed_model :: schema_Model where
  "indexed_model = \<lparr>M_Name = ''T'', M_Fields = [],
      M_Columns = [\<lparr>C_Name = ''a'', C_Type = BaseType ''int'' ''integer'', C_DBType = ''integer'', C_Nullable = False\<rparr>,
                   \<lparr>C_Name = ''b'', C_Type = BaseType ''int'' ''integer'', C_DBType = ''integer'', C_Nullable = False\<rparr>],
      M_PrimaryKey = Some \<lparr>PK_Columns = [''a'']\<rparr>,
      M_Indexes = [\<lparr>I_Name = [], I_Columns = [''a'', ''b'']\<rparr>, \<lparr>I_Name = [], I_Columns = [''zz'']\<rparr>,
                   \<lparr>I_Name = [], I_Columns = [''a'', ''b'']\<rparr>],
      M_Uniques = [\<lparr>U_Name = [], U_Columns = [''b'']\<rparr>, \<lparr>U_Name = [], U_Columns = [''b'']\<rparr>],
      M_ForeignKeys = []\<rparr>"

text \<open>
  Two declaration sets with a foreign key from Post to User: in the first User
  declares no primary key, in the second a primary key with no column. Then the
  two models as \<^verbatim>\<open>makeModel\<close> builds them, User with a given primary key.
\<close>

definition fk_to_model_without_primary_key :: "modelEntry list" where
  "fk_to_model_without_primary_key =
     [\<lparr>me_name = ''User'', me_items = [field ''id'' ''int'' []]\<rparr>,
      \<lparr>me_name = ''Post'',
        me_items = [field ''id'' ''int'' [], field ''author_id'' ''int'' [], primaryKey [''id''],
                    foreignKey ''author_id'' ''User'']\<rparr>]"

definition fk_to_model_with_empty_primary_key :: "modelEntry list" where
  "fk_to_model_with_empty_primary_key =
     [\<lparr>me_name = ''User'', me_items = [field ''id'' ''int'' [], primaryKey []]\<rparr>,
      \<lparr>me_name = ''Post'',
        me_items = [field ''id'' ''int'' [], field ''author_id'' ''int'' [], primaryKey [''id''],
                    foreignKey ''author_id'' ''User'']\<rparr>]"

definition post_model :: schema_Model where
  "post_model = \<lparr>M_Name = ''Post'', M_Fields = [],
      M_Columns = [\<lparr>C_Name = ''id'', C_Type = BaseType ''int'' ''integer'', C_DBType = ''integer'', C_Nullable = False\<rparr>,
                   \<lparr>C_Name = ''author_id'', C_Type = BaseType ''int'' ''integer'', C_DBType = ''integer'', C_Nullable = False\<rparr>],
      M_PrimaryKey = Some \<lparr>PK_Columns = [''id'']\<rparr>,
      M_Indexes = [], M_Uniques = [],
      M_ForeignKeys = [\<lparr>FK_Name = [], FK_Model = ''Post'', FK_Column = ''author_id'',
                        FK_ForeignModel = ''User'', FK_ForeignColumn = []\<rparr>]\<rparr>"

definition user_model :: "schema_PrimaryKey option \<Rightarrow> schema_Model" where
  "user_model pk = \<lparr>M_Name = ''User'', M_Fields = [],
      M_Columns = [\<lparr>C_Name = ''id'', C_Type = BaseType ''int'' ''integer'', C_DBType = ''integer'', C_Nullable = False\<rparr>],
      M_PrimaryKey = pk, M_Indexes = [], M_Uniques = [], M_ForeignKeys = []\<rparr>"

text \<open>
  An item that declares no primary key when \<^verbatim>\<open>makeModel\<close> reaches it: it is no
  primary key declaration and no field of a struct type (whose items could declare
  one).
\<close>

fun declares_no_primary_key :: "schema_Schema \<Rightarrow> ModelItem \<Rightarrow> bool" where
  "declares_no_primary_key s (primaryKey names) = False"
| "declares_no_primary_key s (field n tn fl) = (case Types s tn of Some (Struct sn) \<Rightarrow> False | _ \<Rightarrow> True)"
| "declares_no_primary_key s i = True"

text \<open>
  The members of a struct, in the words of the flattening law of the specification
  (sections 4.2 and 8), with paths relative to the struct: a \<^verbatim>\<open>Leaf\<close> for every member of
  a base type, reached through any depth of struct-typed members, and a \<^verbatim>\<open>Group\<close> for
  every struct-typed member that is itself nullable. The flag of a member says
  whether it, or a member above it inside the struct, is nullable. The depth that
  is followed is bounded as in \<^verbatim>\<open>makeModel\<close>.
\<close>

datatype member = Leaf string schema_Type bool | Group string bool

fun nest :: "string \<Rightarrow> bool \<Rightarrow> member \<Rightarrow> member" where
  "nest n b (Leaf path t nul) = Leaf (n @ ''.'' @ path) t (nul \<or> b)"
| "nest n b (Group path nul) = Group (n @ ''.'' @ path) (nul \<or> b)"

fun members :: "nat \<Rightarrow> schema_Schema \<Rightarrow> (string \<rightharpoonup> typeEntry) \<Rightarrow> ModelItem list \<Rightarrow> member list" where
  "members fuel s tbn [] = []"
| "members fuel s tbn (field n tn fl # items) =
     (case Types s tn of
        None \<Rightarrow> members fuel s tbn items
      | Some t \<Rightarrow>
          (case t of
             Struct sn \<Rightarrow>
               (case tbn tn of
                  None \<Rightarrow> []
                | Some e \<Rightarrow>
                    (case te_info e of
                       baseInfo db \<Rightarrow> []
                     | structType sitems \<Rightarrow>
                         (case fuel of
                            0 \<Rightarrow> []
                          | Suc k \<Rightarrow>
                              map (nest n (isNullable fl)) (members k s tbn sitems)
                                @ (if isNullable fl then [Group n False] else [])
                                @ members fuel s tbn items)))
           | _ \<Rightarrow> Leaf n t (isNullable fl) # members fuel s tbn items))"
| "members fuel s tbn (primaryKey names # items) = members fuel s tbn items"
| "members fuel s tbn (index names # items) = members fuel s tbn items"
| "members fuel s tbn (unique names # items) = members fuel s tbn items"
| "members fuel s tbn (foreignKey c fm # items) = members fuel s tbn items"

fun is_Leaf :: "member \<Rightarrow> bool" where
  "is_Leaf (Leaf path t nul) = True"
| "is_Leaf (Group path nul) = False"

fun member_column :: "string \<Rightarrow> bool \<Rightarrow> member \<Rightarrow> schema_Column" where
  "member_column p fn (Leaf path t nul) = baseColumn (p @ path) t (nul \<or> fn)"
| "member_column p fn (Group path nul) = presenceColumn (p @ path) (nul \<or> fn)"

text \<open>
  The column that the flattening law gives a member of the struct of a nullable
  top-level field \<^verbatim>\<open>f\<close>: named by the field name and the member path joined with
  double underscores, and nullable.
\<close>

fun nested_column :: "string \<Rightarrow> member \<Rightarrow> schema_Column" where
  "nested_column f (Leaf path t nul) =
     \<lparr>C_Name = undot f @ ''__'' @ undot path, C_Type = t, C_DBType = TypeDB t, C_Nullable = True\<rparr>"
| "nested_column f (Group path nul) =
     \<lparr>C_Name = undot f @ ''__'' @ undot path, C_Type = C_Type (presenceColumn path True),
      C_DBType = ''boolean'', C_Nullable = True\<rparr>"

definition nested_types :: "typeEntry list" where
  "nested_types =
     [\<lparr>te_name = ''int'', te_info = baseInfo ''integer''\<rparr>,
      \<lparr>te_name = ''Inner'', te_info = structType [field ''y'' ''int'' []]\<rparr>,
      \<lparr>te_name = ''Outer'',
        te_info = structType [field ''b'' ''Inner'' [nullFlag], field ''x'' ''int'' []]\<rparr>]"












section \<open>Diagnostics are only ever appended\<close>

text \<open>
  No function of \<^verbatim>\<open>validate.go\<close> reads \<^verbatim>\<open>validationErrors\<close> before line 71: each
  one commutes with putting earlier diagnostics in front of the list.
\<close>

lemma earlier_simps [simp]:
  "typesByName (earlier e g) = typesByName g"
  "validationErrors (earlier e g) = e @ validationErrors g"
  by (simp_all add: earlier_def)

lemma addError_earlier: "addError msg (earlier e g) = earlier e (addError msg g)"
  by (simp add: addError_def earlier_def)

lemma apsnd_addError_earlier:
  "apsnd (addError msg) (apsnd (earlier e) st) = apsnd (earlier e) (apsnd (addError msg) st)"
  by (cases st) (simp add: addError_earlier)

lemma ifThen_earlier:
  "ifThen c (addError msg) (earlier e g) = earlier e (ifThen c (addError msg) g)"
  by (simp add: ifThen_def addError_earlier)

lemma typesByName_ifThen [simp]: "typesByName (ifThen c (addError msg) g) = typesByName g"
  by (simp add: ifThen_def addError_def)

lemma typesByName_addError [simp]: "typesByName (addError msg g) = typesByName g"
  by (simp add: addError_def)

lemma validationErrors_addError [simp]:
  "validationErrors (addError msg g) = validationErrors g @ [msg]"
  by (simp add: addError_def)

lemma makeTags_loop_earlier:
  "makeTags_loop flags ctx (apsnd (earlier e) st) = apsnd (earlier e) (makeTags_loop flags ctx st)"
  by (induction flags ctx st rule: makeTags_loop.induct) (auto simp: addError_earlier ifThen_earlier)

lemma makeTags_earlier:
  "makeTags flags ctx (earlier e g) = apsnd (earlier e) (makeTags flags ctx g)"
  using makeTags_loop_earlier [of flags ctx e "(Map.empty, g)"] by (simp add: makeTags_def)

lemma appendField_earlier:
  "appendField n t flags p fn (apsnd (earlier e) st) = apsnd (earlier e) (appendField n t flags p fn st)"
  by (cases st) (simp add: appendField_def makeTags_earlier split: prod.splits)

lemma typesByName_makeTags_loop:
  "typesByName (snd (makeTags_loop flags ctx st)) = typesByName (snd st)"
  by (induction flags ctx st rule: makeTags_loop.induct) auto

lemma typesByName_makeTags:
  "typesByName (snd (makeTags flags ctx g)) = typesByName g"
  by (simp add: makeTags_def typesByName_makeTags_loop)

lemma typesByName_appendField [simp]:
  "typesByName (snd (appendField n t flags p fn st)) = typesByName (snd st)"
proof (cases st)
  case (Pair m g)
  show ?thesis
    using typesByName_makeTags [of flags "field_context (M_Name m) n" g]
    by (auto simp add: Pair appendField_def split: prod.splits)
qed

lemma apfst_apsnd_commute: "apfst f (apsnd h st) = apsnd h (apfst f st)"
  by (cases st) simp

lemma makeModel_earlier:
  "makeModel fuel s items p fn (apsnd (earlier e) st) = map_result (apsnd (earlier e)) (makeModel fuel s items p fn st)"
proof (induction fuel s items p fn st rule: makeModel.induct)
  case (1 fuel s prefix forceNullable st)
  then show ?case by simp
next
  case (2 fuel s n typeName flags items prefix forceNullable st)
  then show ?case
    by (auto simp add: appendField_earlier apsnd_addError_earlier ifThen_earlier apfst_apsnd_commute
        split: option.splits schema_Type.splits typeInfo.splits nat.splits result.splits)
next
  case (3 fuel s names items prefix forceNullable st)
  then show ?case 
    by (cases st) (auto simp add: addError_earlier ifThen_earlier)
next
  case (4 fuel s names items prefix forceNullable st)
  then show ?case 
    by (cases st) (auto simp add: addError_earlier ifThen_earlier)
next
  case (5 fuel s names items prefix forceNullable st)
  then show ?case 
    by (cases st) (auto simp add: addError_earlier ifThen_earlier)
next
  case (6 fuel s columnName foreignModelName items prefix forceNullable st)
  then show ?case 
    by (cases st) (auto simp add: addError_earlier ifThen_earlier)
qed

lemma checkDuplicateFields_loop_earlier:
  "checkDuplicateFields_loop m fs seen (earlier e g) = earlier e (checkDuplicateFields_loop m fs seen g)"
  by (induction fs arbitrary: seen g) (auto simp: addError_earlier ifThen_earlier)

lemma checkPrimaryKey_loop_earlier:
  "checkPrimaryKey_loop m ns (earlier e g) = earlier e (checkPrimaryKey_loop m ns g)"
  by (induction ns arbitrary: g) (auto simp: addError_earlier ifThen_earlier split: option.splits)

lemma checkPrimaryKey_earlier:
  "checkPrimaryKey s m (earlier e g) = earlier e (checkPrimaryKey s m g)"
  by (simp add: checkPrimaryKey_def checkPrimaryKey_loop_earlier addError_earlier ifThen_earlier split: option.splits)

lemma checkColumns_loop_earlier:
  "checkColumns_loop m kind cols ns (earlier e g) = earlier e (checkColumns_loop m kind cols ns g)"
  by (induction ns arbitrary: g) (auto simp: addError_earlier ifThen_earlier split: option.splits)

lemma checkIndexes_loop_earlier:
  "checkIndexes_loop m fs seen (apsnd (earlier e) st) = apsnd (earlier e) (checkIndexes_loop m fs seen st)"
  by (induction m fs seen st rule: checkIndexes_loop.induct)
     (auto simp: addError_earlier ifThen_earlier checkColumns_loop_earlier)

lemma checkIndexes_earlier:
  "checkIndexes s (apsnd (earlier e) st) = apsnd (earlier e) (checkIndexes s st)"
  using checkIndexes_loop_earlier [of "fst st" "M_Indexes (fst st)" "{}" e "([], snd st)"]
  by (simp add: checkIndexes_def split: prod.splits)

lemma checkUniques_loop_earlier:
  "checkUniques_loop m fs seen (apsnd (earlier e) st) = apsnd (earlier e) (checkUniques_loop m fs seen st)"
  by (induction m fs seen st rule: checkUniques_loop.induct)
     (auto simp: addError_earlier ifThen_earlier checkColumns_loop_earlier)

lemma checkUniques_earlier:
  "checkUniques s (apsnd (earlier e) st) = apsnd (earlier e) (checkUniques s st)"
  using checkUniques_loop_earlier [of "fst st" "M_Uniques (fst st)" "{}" e "([], snd st)"]
  by (simp add: checkUniques_def split: prod.splits)

lemma checkForeignKeyColumn_earlier:
  "checkForeignKeyColumn m f (earlier e g) = earlier e (checkForeignKeyColumn m f g)"
  by (simp add: checkForeignKeyColumn_def addError_earlier ifThen_earlier split: option.splits)

lemma checkForeignKeys_loop_earlier:
  "checkForeignKeys_loop s m fs (apsnd (earlier e) st)
     = map_result (apsnd (earlier e)) (checkForeignKeys_loop s m fs st)"
  by (induction s m fs st rule: checkForeignKeys_loop.induct)
     (auto simp: addError_earlier ifThen_earlier checkForeignKeyColumn_earlier split: option.splits list.splits)

lemma checkForeignKeys_earlier:
  "checkForeignKeys s (apsnd (earlier e) st) = map_result (apsnd (earlier e)) (checkForeignKeys s st)"
  using checkForeignKeys_loop_earlier [of s "fst st" "M_ForeignKeys (fst st)" e "([], snd st)"]
  by (auto simp add: checkForeignKeys_def split: result.splits)

lemma checkModel_earlier:
  "checkModel s m (earlier e g) = map_result (apsnd (earlier e)) (checkModel s m g)"
proof -
  have "(m, checkPrimaryKey s m (checkDuplicateFields s m (earlier e g)))
      = apsnd (earlier e) (m, checkPrimaryKey s m (checkDuplicateFields s m g))"
    by (simp add: checkDuplicateFields_def checkDuplicateFields_loop_earlier checkPrimaryKey_earlier)
  then show ?thesis
    by (simp only: checkModel_def checkIndexes_earlier checkUniques_earlier checkForeignKeys_earlier)
qed

lemma Schema_checkModels_earlier:
  "Schema_checkModels ord (apsnd (earlier e) st) = map_result (apsnd (earlier e)) (Schema_checkModels ord st)"
  by (induction ord st rule: Schema_checkModels.induct)
     (auto simp: checkModel_earlier split: option.splits result.splits)

lemma Schema_registerModels_earlier:
  "Schema_registerModels fuel ms (apsnd (earlier e) st)
     = map_result (apsnd (earlier e)) (Schema_registerModels fuel ms st)"
proof (induction fuel ms st rule: Schema_registerModels.induct)
  case (1 fuel st)
  then show ?case by simp
next
  case (2 fuel me ms st)
  have "makeModel fuel s' (me_items me) [] False (newModel (me_name me), ifThen c (addError msg) (earlier e (snd st)))
       = map_result (apsnd (earlier e)) (makeModel fuel s' (me_items me) [] False (newModel (me_name me), ifThen c (addError msg) (snd st)))"
    for s' c msg
    using makeModel_earlier [of fuel s' "me_items me" "[]" False e "(newModel (me_name me), ifThen c (addError msg) (snd st))"]
    by (simp add: ifThen_earlier)
  with 2 show ?case
    by (auto split: result.splits)
qed

lemma Schema_lookups_earlier:
  "Schema_lookups s tn rs (earlier e g) = earlier e (Schema_lookups s tn rs g)"
  by (induction s tn rs g rule: Schema_lookups.induct) (simp_all add: ifThen_earlier)

lemma Schema_resolveTypes_earlier:
  "Schema_resolveTypes ext s ts (earlier e g) = earlier e (Schema_resolveTypes ext s ts g)"
  by (induction ts arbitrary: g) (simp_all add: Schema_lookups_earlier)

lemma earlier_typesByName_update:
  "(earlier e g)\<lparr>typesByName := x\<rparr> = earlier e (g\<lparr>typesByName := x\<rparr>)"
  by (simp add: earlier_def)

lemma Schema_registerTypes_earlier:
  "Schema_registerTypes ts (apsnd (earlier e) st) = apsnd (earlier e) (Schema_registerTypes ts st)"
  by (induction ts st rule: Schema_registerTypes.induct)
     (simp_all add: ifThen_earlier earlier_typesByName_update)

lemma Schema_validate_earlier:
  "Schema_validate ext ord fuel types models (earlier e g)
     = map_result (apsnd (earlier e)) (Schema_validate ext ord fuel types models g)"
proof -
  obtain s g1 where r: "Schema_registerTypes types (NewSchema, g\<lparr>typesByName := Map.empty\<rparr>) = (s, g1)"
    by (cases "Schema_registerTypes types (NewSchema, g\<lparr>typesByName := Map.empty\<rparr>)")
  have "Schema_registerTypes types (NewSchema, (earlier e g)\<lparr>typesByName := Map.empty\<rparr>) = (s, earlier e g1)"
    using Schema_registerTypes_earlier [of types e "(NewSchema, g\<lparr>typesByName := Map.empty\<rparr>)"] r
    by (simp add: earlier_typesByName_update)
  moreover have "Schema_registerModels fuel models (s, Schema_resolveTypes ext s types (earlier e g1))
      = map_result (apsnd (earlier e)) (Schema_registerModels fuel models (s, Schema_resolveTypes ext s types g1))"
    using Schema_registerModels_earlier [of fuel models e "(s, Schema_resolveTypes ext s types g1)"]
    by (simp add: Schema_resolveTypes_earlier)
  moreover have "Schema_checkModels ord (a, earlier e b) = map_result (apsnd (earlier e)) (Schema_checkModels ord (a, b))" for a b
    using Schema_checkModels_earlier [of ord e "(a, b)"] by simp
  ultimately show ?thesis
    by (auto simp: Schema_validate_def r split: result.splits)
qed

lemma earlier_split: "g = earlier (validationErrors g) (g\<lparr>validationErrors := []\<rparr>)"
  by (simp add: earlier_def)

lemma map_result_Return: "map_result f x = Return y \<longleftrightarrow> (\<exists>z. x = Return z \<and> y = f z)"
  by (cases x) auto

lemma Schema_validate_appends:
  assumes "Schema_validate ext ord fuel types models g = Return (s, g')"
  shows "validationErrors g' = validationErrors g @ recorded g g'"
proof -
  have "Schema_validate ext ord fuel types models (earlier (validationErrors g) (g\<lparr>validationErrors := []\<rparr>))
      = Schema_validate ext ord fuel types models g"
    by (rule arg_cong [OF earlier_split [symmetric]])
  with assms have "Schema_validate ext ord fuel types models (earlier (validationErrors g) (g\<lparr>validationErrors := []\<rparr>))
      = Return (s, g')"
    by simp
  then obtain g'' where "g' = earlier (validationErrors g) g''"
    by (auto simp: Schema_validate_earlier map_result_Return)
  then show ?thesis
    by (simp add: recorded_def)
qed

lemma Schema_Return:
  "Schema ext ord fuel types models g = Return (r, g') \<longleftrightarrow>
     (\<exists>s. Schema_validate ext ord fuel types models g = Return (s, g') \<and> r = fst (Schema_finish ext (s, g')))"
  by (auto simp: Schema_def Schema_finish_def split: result.splits)


section \<open>Runs of the two scenarios\<close>

lemma decimal_1: "decimal (Suc 0) = ''1''"
  by (simp add: decimal.simps [of "Suc 0"])

lemmas run_defs =
  Schema_def Schema_validate_def Schema_finish_def errorsFound_def decimal_1
  plain_externals_def base_types_def fresh_def after_scenario_B_def NewSchema_def newModel_def
  ifThen_def addError_def appendField_def makeTags_def appendColumn_def baseColumn_def
  undot_def undotAll_def prefixAll_def checkModel_def checkDuplicateFields_def checkPrimaryKey_def
  checkIndexes_def checkUniques_def checkForeignKeys_def checkForeignKeyColumn_def FindColumn_def
  makeName_def

lemma scenario_B_run:
  "Schema plain_externals [''Order''] 0 base_types scenario_B fresh =
     Return (Inl (''1 errors found:'' @ nl @ msg_primary_key_nullable_column ''Order'' ''total'' @ nl),
             after_scenario_B)"
  by (simp add: run_defs scenario_B_def)

lemma scenario_A_run:
  "map_result (isl \<circ> fst) (Schema plain_externals [''User'', ''Post''] 0 base_types scenario_A fresh)
     = Return False"
  by (simp add: run_defs scenario_A_def)

lemma scenario_A_after_B_run:
  "Schema plain_externals [''User'', ''Post''] 0 base_types scenario_A after_scenario_B =
     Return (Inl (''1 errors found:'' @ nl @ msg_primary_key_nullable_column ''Order'' ''total'' @ nl),
             after_scenario_B)"
  by (simp add: run_defs scenario_A_def)

section \<open>The result of Schema\<close>




section \<open>Successive calls\<close>

text \<open>
  Claim C10. \<^verbatim>\<open>validationErrors\<close> is a package variable that no line clears. For two
  successive calls that return, the second starting in the state the first left:
  the list after the second call is the list after the first call followed by what
  the second call recorded, the header of its error counts all of them, and when
  the first call failed the second fails too, whatever its declarations are.
\<close>

theorem Schema_diagnostics_accumulate:
  assumes first: "Schema ext1 ord1 fuel1 types1 models1 g0 = Return (r1, g1)"
      and second: "Schema ext2 ord2 fuel2 types2 models2 g1 = Return (r2, g2)"
  shows "validationErrors g1 = validationErrors g0 @ recorded g0 g1
     \<and> validationErrors g2 = validationErrors g1 @ recorded g1 g2
     \<and> (validationErrors g1 \<noteq> [] \<longrightarrow>
          r2 = Inl (decimal (length (validationErrors g1) + length (recorded g1 g2)) @ '' errors found:'' @ nl
                     @ concat (map (\<lambda>e. e @ nl) (validationErrors g1 @ recorded g1 g2))))
     \<and> ((\<exists>msg. r1 = Inl msg) \<longrightarrow> (\<exists>msg. r2 = Inl msg))"
proof -
  from first obtain s1 where v1: "Schema_validate ext1 ord1 fuel1 types1 models1 g0 = Return (s1, g1)"
    and r1: "r1 = fst (Schema_finish ext1 (s1, g1))"
    by (auto simp: Schema_Return)
  from second obtain s2 where v2: "Schema_validate ext2 ord2 fuel2 types2 models2 g1 = Return (s2, g2)"
    and r2: "r2 = fst (Schema_finish ext2 (s2, g2))"
    by (auto simp: Schema_Return)
  have a1: "validationErrors g1 = validationErrors g0 @ recorded g0 g1"
    using v1 by (rule Schema_validate_appends)
  have a2: "validationErrors g2 = validationErrors g1 @ recorded g1 g2"
    using v2 by (rule Schema_validate_appends)
  have n2: "validationErrors g1 \<noteq> [] \<Longrightarrow> validationErrors g2 \<noteq> []"
    using a2 by simp
  have "errorsFound (validationErrors g2)
      = decimal (length (validationErrors g1) + length (recorded g1 g2)) @ '' errors found:'' @ nl
          @ concat (map (\<lambda>e. e @ nl) (validationErrors g1 @ recorded g1 g2))"
    by (subst a2) (simp only: errorsFound_def length_append)
  then have header: "validationErrors g1 \<noteq> [] \<longrightarrow>
      r2 = Inl (decimal (length (validationErrors g1) + length (recorded g1 g2)) @ '' errors found:'' @ nl
                  @ concat (map (\<lambda>e. e @ nl) (validationErrors g1 @ recorded g1 g2)))"
    using n2 r2 by (simp add: Schema_finish_def)
  have "(\<exists>msg. r1 = Inl msg) \<Longrightarrow> validationErrors g1 \<noteq> []"
    using r1 by (auto simp: Schema_finish_def split: if_splits)
  then have "(\<exists>msg. r1 = Inl msg) \<longrightarrow> (\<exists>msg. r2 = Inl msg)"
    using n2 r2 by (auto simp: Schema_finish_def)
  with a1 a2 header show ?thesis
    by blast
qed


theorem Schema_diagnostics_accumulate_witness:
  "Schema plain_externals [''Order''] 0 base_types scenario_B fresh
      = Return (Inl (''1 errors found:'' @ nl @ msg_primary_key_nullable_column ''Order'' ''total'' @ nl),
                after_scenario_B)
   \<and> map_result (isl \<circ> fst) (Schema plain_externals [''User'', ''Post''] 0 base_types scenario_A fresh)
      = Return False
   \<and> Schema plain_externals [''User'', ''Post''] 0 base_types scenario_A after_scenario_B
      = Return (Inl (''1 errors found:'' @ nl @ msg_primary_key_nullable_column ''Order'' ''total'' @ nl),
                after_scenario_B)
   \<and> validationErrors after_scenario_B = validationErrors after_scenario_B @ recorded after_scenario_B after_scenario_B"
  using Schema_diagnostics_accumulate [OF scenario_B_run scenario_A_after_B_run]
    scenario_B_run scenario_A_run scenario_A_after_B_run
  by simp

section \<open>The primary key check\<close>

lemma recorded_append: "validationErrors g' = validationErrors g @ new \<Longrightarrow> recorded g g' = new"
  by (simp add: recorded_def)

lemma validationErrors_ifThen:
  "validationErrors (ifThen c (addError msg) g) = validationErrors g @ (if c then [msg] else [])"
  by (simp add: ifThen_def)

lemma checkPrimaryKey_loop_errors:
  "validationErrors (checkPrimaryKey_loop m ns g) = validationErrors g @
     concat (map (\<lambda>n. case FindColumn m n of
                          None \<Rightarrow> [msg_primary_key_unknown_column (M_Name m) n]
                        | Some c \<Rightarrow> if C_Nullable c then [msg_primary_key_nullable_column (M_Name m) n] else []) ns)"
  by (induction ns arbitrary: g) (auto simp: validationErrors_ifThen split: option.splits)

lemma checkPrimaryKey_errors:
  "validationErrors (checkPrimaryKey s m g) = validationErrors g @
     (case M_PrimaryKey m of
        None \<Rightarrow> [msg_missing_primary_key (M_Name m)]
      | Some pk \<Rightarrow>
          concat (map (\<lambda>n. case FindColumn m n of
                          None \<Rightarrow> [msg_primary_key_unknown_column (M_Name m) n]
                        | Some c \<Rightarrow> if C_Nullable c then [msg_primary_key_nullable_column (M_Name m) n] else [])
                     (PK_Columns pk)))"
  by (simp add: checkPrimaryKey_def checkPrimaryKey_loop_errors split: option.splits)

lemma scenario_B_run_any:
  "Schema (ext\<lparr>ext_references := (\<lambda>i. [])\<rparr>) [''Order''] fuel base_types scenario_B fresh
     = Return (Inl (''1 errors found:'' @ nl @ msg_primary_key_nullable_column ''Order'' ''total'' @ nl),
               after_scenario_B)"
  by (simp add: run_defs scenario_B_def)

text \<open>
  Claim C7. \<^verbatim>\<open>checkPrimaryKey\<close> records that the primary key is missing when the model
  has none; for a primary key it records, for each of its column names, that the
  column is unknown when the model has no column of that name, and that the column is
  nullable when the column found is nullable. In scenario B (model Order, a nullable
  column total of type decimal, primary key on total) the diagnostic of the nullable
  column is the one recorded and \<^verbatim>\<open>Schema()\<close> fails with it.
\<close>

theorem checkPrimaryKey_diagnostics:
  "(M_PrimaryKey m = None \<longrightarrow>
      recorded g (checkPrimaryKey s m g) = [msg_missing_primary_key (M_Name m)])
   \<and> (\<forall>pk n. M_PrimaryKey m = Some pk \<and> n \<in> set (PK_Columns pk) \<and> FindColumn m n = None \<longrightarrow>
        msg_primary_key_unknown_column (M_Name m) n \<in> set (recorded g (checkPrimaryKey s m g)))
   \<and> (\<forall>pk n c. M_PrimaryKey m = Some pk \<and> n \<in> set (PK_Columns pk) \<and> FindColumn m n = Some c \<and> C_Nullable c \<longrightarrow>
        msg_primary_key_nullable_column (M_Name m) n \<in> set (recorded g (checkPrimaryKey s m g)))
   \<and> Schema (ext\<lparr>ext_references := (\<lambda>i. [])\<rparr>) [''Order''] fuel base_types scenario_B fresh
       = Return (Inl (''1 errors found:'' @ nl @ msg_primary_key_nullable_column ''Order'' ''total'' @ nl),
                 after_scenario_B)
   \<and> msg_primary_key_nullable_column ''Order'' ''total''
       = ''Model '' @ sq @ ''Order'' @ sq @ '' primary key references nullable column '' @ sq @ ''total'' @ sq"
proof -
  have r: "recorded g (checkPrimaryKey s m g) =
     (case M_PrimaryKey m of
        None \<Rightarrow> [msg_missing_primary_key (M_Name m)]
      | Some pk \<Rightarrow>
          concat (map (\<lambda>n. case FindColumn m n of
                          None \<Rightarrow> [msg_primary_key_unknown_column (M_Name m) n]
                        | Some c \<Rightarrow> if C_Nullable c then [msg_primary_key_nullable_column (M_Name m) n] else [])
                     (PK_Columns pk)))"
    by (rule recorded_append) (rule checkPrimaryKey_errors)
  have missing: "M_PrimaryKey m = None \<longrightarrow>
      recorded g (checkPrimaryKey s m g) = [msg_missing_primary_key (M_Name m)]"
    by (simp add: r)
  have unknown: "\<forall>pk n. M_PrimaryKey m = Some pk \<and> n \<in> set (PK_Columns pk) \<and> FindColumn m n = None \<longrightarrow>
        msg_primary_key_unknown_column (M_Name m) n \<in> set (recorded g (checkPrimaryKey s m g))"
    by (force simp: r)
  have nullable: "\<forall>pk n c. M_PrimaryKey m = Some pk \<and> n \<in> set (PK_Columns pk) \<and> FindColumn m n = Some c \<and> C_Nullable c \<longrightarrow>
        msg_primary_key_nullable_column (M_Name m) n \<in> set (recorded g (checkPrimaryKey s m g))"
    by (force simp: r)
  have wording: "msg_primary_key_nullable_column ''Order'' ''total''
       = ''Model '' @ sq @ ''Order'' @ sq @ '' primary key references nullable column '' @ sq @ ''total'' @ sq"
    by (simp add: msg_primary_key_nullable_column_def quoted_def)
  show ?thesis
    by (intro conjI missing unknown nullable wording scenario_B_run_any)
qed

theorem checkPrimaryKey_diagnostics_witness:
  "M_PrimaryKey order_model = Some \<lparr>PK_Columns = [''total'']\<rparr>
   \<and> FindColumn order_model ''total''
       = Some \<lparr>C_Name = ''total'', C_Type = BaseType ''decimal'' ''numeric'', C_DBType = ''numeric'', C_Nullable = True\<rparr>
   \<and> msg_primary_key_nullable_column ''Order'' ''total'' \<in> set (recorded fresh (checkPrimaryKey NewSchema order_model fresh))
   \<and> M_PrimaryKey (newModel ''Order'') = None
   \<and> recorded fresh (checkPrimaryKey NewSchema (newModel ''Order'') fresh) = [msg_missing_primary_key ''Order'']"
  using checkPrimaryKey_diagnostics [of order_model fresh NewSchema plain_externals 0]
    checkPrimaryKey_diagnostics [of "newModel ''Order''" fresh NewSchema plain_externals 0]
  by (simp add: order_model_def FindColumn_def newModel_def)

section \<open>The checks of indexes and uniques\<close>

lemma checkColumns_loop_errors:
  "validationErrors (checkColumns_loop m kind cols ns g) = validationErrors g @
     map (msg_constraint_unknown_column (M_Name m) kind (describeIndex cols))
       (filter (\<lambda>n. FindColumn m n = None) ns)"
  by (induction ns arbitrary: g) (auto split: option.splits)

lemma drop_append_mono: "x \<in> set (drop k xs) \<Longrightarrow> x \<in> set (drop k (xs @ ys))"
  by auto

lemma drop_append_new: "k \<le> length xs \<Longrightarrow> x \<in> set ys \<Longrightarrow> x \<in> set (drop k (xs @ ys))"
  by auto

lemma checkIndexes_loop_fst:
  "fst (checkIndexes_loop m fs seen st)
     = fst st @ map (\<lambda>f. f\<lparr>I_Name := makeName (M_Name m) (I_Columns f) ''idx''\<rparr>) fs"
  by (induction m fs seen st rule: checkIndexes_loop.induct) simp_all

lemma checkIndexes_loop_appends:
  "\<exists>new. validationErrors (snd (checkIndexes_loop m fs seen st)) = validationErrors (snd st) @ new"
  by (induction m fs seen st rule: checkIndexes_loop.induct)
     (auto simp: checkColumns_loop_errors validationErrors_ifThen)

lemma checkIndexes_loop_keeps:
  assumes "x \<in> set (drop k (validationErrors (snd st)))"
  shows "x \<in> set (drop k (validationErrors (snd (checkIndexes_loop m fs seen st))))"
proof -
  obtain new where "validationErrors (snd (checkIndexes_loop m fs seen st)) = validationErrors (snd st) @ new"
    using checkIndexes_loop_appends by blast
  with assms show ?thesis
    by (simp only: drop_append_mono)
qed

lemma checkIndexes_loop_unknown:
  assumes "f \<in> set fs" and "n \<in> set (I_Columns f)" and "FindColumn m n = None"
    and "k \<le> length (validationErrors (snd st))"
  shows "msg_constraint_unknown_column (M_Name m) ''index'' (describeIndex (I_Columns f)) n
           \<in> set (drop k (validationErrors (snd (checkIndexes_loop m fs seen st))))"
  using assms
proof (induction m fs seen st rule: checkIndexes_loop.induct)
  case (1 m seen st)
  then show ?case by simp
next
  case (2 m f' fs seen st)
  show ?case
  proof (cases "f = f'")
    case True
    with 2 show ?thesis
      by (auto intro!: checkIndexes_loop_keeps drop_append_new
          simp: checkColumns_loop_errors validationErrors_ifThen)
  next
    case False
    with 2 show ?thesis
      by (auto simp: checkColumns_loop_errors validationErrors_ifThen)
  qed
qed

lemma checkIndexes_loop_twice:
  assumes "fs = xs @ f # ys"
    and "makeName (M_Name m) (I_Columns f) ''idx'' \<in> seen \<or> (\<exists>f'\<in>set xs. I_Columns f' = I_Columns f)"
    and "k \<le> length (validationErrors (snd st))"
  shows "msg_constraint_twice (M_Name m) ''index'' (describeIndex (I_Columns f))
           \<in> set (drop k (validationErrors (snd (checkIndexes_loop m fs seen st))))"
  using assms
proof (induction xs arbitrary: fs seen st)
  case Nil
  then show ?case
    by (auto intro!: checkIndexes_loop_keeps drop_append_new drop_append_mono
        simp: checkColumns_loop_errors validationErrors_ifThen)
next
  case (Cons x xs)
  let ?seen = "insert (makeName (M_Name m) (I_Columns x) ''idx'') seen"
  let ?st = "(fst st @ [x\<lparr>I_Name := makeName (M_Name m) (I_Columns x) ''idx''\<rparr>],
              checkColumns_loop m ''index'' (I_Columns x) (I_Columns x)
                (ifThen (makeName (M_Name m) (I_Columns x) ''idx'' \<in> seen)
                   (addError (msg_constraint_twice (M_Name m) ''index'' (describeIndex (I_Columns x))))
                   (snd st)))"
  have step: "checkIndexes_loop m fs seen st = checkIndexes_loop m (xs @ f # ys) ?seen ?st"
    using Cons.prems(1) by simp
  have "makeName (M_Name m) (I_Columns f) ''idx'' \<in> ?seen \<or> (\<exists>f'\<in>set xs. I_Columns f' = I_Columns f)"
    using Cons.prems(2) by auto
  moreover have "k \<le> length (validationErrors (snd ?st))"
    using Cons.prems(3) by (simp add: checkColumns_loop_errors validationErrors_ifThen)
  ultimately show ?case
    unfolding step by (rule Cons.IH [OF refl])
qed

lemma checkUniques_loop_fst:
  "fst (checkUniques_loop m fs seen st)
     = fst st @ map (\<lambda>f. f\<lparr>U_Name := makeName (M_Name m) (U_Columns f) ''key''\<rparr>) fs"
  by (induction m fs seen st rule: checkUniques_loop.induct) simp_all

lemma checkUniques_loop_appends:
  "\<exists>new. validationErrors (snd (checkUniques_loop m fs seen st)) = validationErrors (snd st) @ new"
  by (induction m fs seen st rule: checkUniques_loop.induct)
     (auto simp: checkColumns_loop_errors validationErrors_ifThen)

lemma checkUniques_loop_keeps:
  assumes "x \<in> set (drop k (validationErrors (snd st)))"
  shows "x \<in> set (drop k (validationErrors (snd (checkUniques_loop m fs seen st))))"
proof -
  obtain new where "validationErrors (snd (checkUniques_loop m fs seen st)) = validationErrors (snd st) @ new"
    using checkUniques_loop_appends by blast
  with assms show ?thesis
    by (simp only: drop_append_mono)
qed

lemma checkUniques_loop_unknown:
  assumes "f \<in> set fs" and "n \<in> set (U_Columns f)" and "FindColumn m n = None"
    and "k \<le> length (validationErrors (snd st))"
  shows "msg_constraint_unknown_column (M_Name m) ''unique'' (describeIndex (U_Columns f)) n
           \<in> set (drop k (validationErrors (snd (checkUniques_loop m fs seen st))))"
  using assms
proof (induction m fs seen st rule: checkUniques_loop.induct)
  case (1 m seen st)
  then show ?case by simp
next
  case (2 m f' fs seen st)
  show ?case
  proof (cases "f = f'")
    case True
    with 2 show ?thesis
      by (auto intro!: checkUniques_loop_keeps drop_append_new
          simp: checkColumns_loop_errors validationErrors_ifThen)
  next
    case False
    with 2 show ?thesis
      by (auto simp: checkColumns_loop_errors validationErrors_ifThen)
  qed
qed

lemma checkUniques_loop_twice:
  assumes "fs = xs @ f # ys"
    and "makeName (M_Name m) (U_Columns f) ''key'' \<in> seen \<or> (\<exists>f'\<in>set xs. U_Columns f' = U_Columns f)"
    and "k \<le> length (validationErrors (snd st))"
  shows "msg_constraint_twice (M_Name m) ''unique'' (describeIndex (U_Columns f))
           \<in> set (drop k (validationErrors (snd (checkUniques_loop m fs seen st))))"
  using assms
proof (induction xs arbitrary: fs seen st)
  case Nil
  then show ?case
    by (auto intro!: checkUniques_loop_keeps drop_append_new drop_append_mono
        simp: checkColumns_loop_errors validationErrors_ifThen)
next
  case (Cons x xs)
  let ?seen = "insert (makeName (M_Name m) (U_Columns x) ''key'') seen"
  let ?st = "(fst st @ [x\<lparr>U_Name := makeName (M_Name m) (U_Columns x) ''key''\<rparr>],
              checkColumns_loop m ''unique'' (U_Columns x) (U_Columns x)
                (ifThen (makeName (M_Name m) (U_Columns x) ''key'' \<in> seen)
                   (addError (msg_constraint_twice (M_Name m) ''unique'' (describeIndex (U_Columns x))))
                   (snd st)))"
  have step: "checkUniques_loop m fs seen st = checkUniques_loop m (xs @ f # ys) ?seen ?st"
    using Cons.prems(1) by simp
  have "makeName (M_Name m) (U_Columns f) ''key'' \<in> ?seen \<or> (\<exists>f'\<in>set xs. U_Columns f' = U_Columns f)"
    using Cons.prems(2) by auto
  moreover have "k \<le> length (validationErrors (snd ?st))"
    using Cons.prems(3) by (simp add: checkColumns_loop_errors validationErrors_ifThen)
  ultimately show ?case
    unfolding step by (rule Cons.IH [OF refl])
qed

text \<open>
  Claim C6. \<^verbatim>\<open>checkIndexes\<close> names every index of a model by the name of the model,
  three underscores, the columns of the index joined by three underscores, three
  underscores and \<^verbatim>\<open>idx\<close>; \<^verbatim>\<open>checkUniques\<close> does the same with \<^verbatim>\<open>key\<close>. Two
  indexes of a model with the same column list get the same name, and the later one
  records the diagnostic of an index defined multiple times; a column name of an index
  that is no column of the model records the diagnostic of an unknown column. The
  same holds of uniques.
\<close>

theorem checkIndexes_names_and_duplicates:
  "M_Indexes (fst (checkIndexes s (m, g)))
      = map (\<lambda>f. f\<lparr>I_Name := M_Name m @ ''___'' @ join ''___'' (I_Columns f) @ ''___idx''\<rparr>) (M_Indexes m)
   \<and> (\<forall>i j. i < j \<and> j < length (M_Indexes m) \<and> I_Columns (M_Indexes m ! i) = I_Columns (M_Indexes m ! j) \<longrightarrow>
         I_Name (M_Indexes (fst (checkIndexes s (m, g))) ! i) = I_Name (M_Indexes (fst (checkIndexes s (m, g))) ! j)
         \<and> msg_constraint_twice (M_Name m) ''index'' (describeIndex (I_Columns (M_Indexes m ! j)))
              \<in> set (recorded g (snd (checkIndexes s (m, g)))))
   \<and> (\<forall>f n. f \<in> set (M_Indexes m) \<and> n \<in> set (I_Columns f) \<and> FindColumn m n = None \<longrightarrow>
         msg_constraint_unknown_column (M_Name m) ''index'' (describeIndex (I_Columns f)) n
              \<in> set (recorded g (snd (checkIndexes s (m, g)))))
   \<and> M_Uniques (fst (checkUniques s (m, g)))
      = map (\<lambda>f. f\<lparr>U_Name := M_Name m @ ''___'' @ join ''___'' (U_Columns f) @ ''___key''\<rparr>) (M_Uniques m)
   \<and> (\<forall>i j. i < j \<and> j < length (M_Uniques m) \<and> U_Columns (M_Uniques m ! i) = U_Columns (M_Uniques m ! j) \<longrightarrow>
         U_Name (M_Uniques (fst (checkUniques s (m, g))) ! i) = U_Name (M_Uniques (fst (checkUniques s (m, g))) ! j)
         \<and> msg_constraint_twice (M_Name m) ''unique'' (describeIndex (U_Columns (M_Uniques m ! j)))
              \<in> set (recorded g (snd (checkUniques s (m, g)))))
   \<and> (\<forall>f n. f \<in> set (M_Uniques m) \<and> n \<in> set (U_Columns f) \<and> FindColumn m n = None \<longrightarrow>
         msg_constraint_unknown_column (M_Name m) ''unique'' (describeIndex (U_Columns f)) n
              \<in> set (recorded g (snd (checkUniques s (m, g)))))"
proof -
  let ?k = "length (validationErrors g)"
  have ifst: "fst (checkIndexes s (m, g)) = m\<lparr>M_Indexes := fst (checkIndexes_loop m (M_Indexes m) {} ([], g))\<rparr>"
    and isnd: "snd (checkIndexes s (m, g)) = snd (checkIndexes_loop m (M_Indexes m) {} ([], g))"
    by (simp_all add: checkIndexes_def split: prod.splits)
  have ufst: "fst (checkUniques s (m, g)) = m\<lparr>M_Uniques := fst (checkUniques_loop m (M_Uniques m) {} ([], g))\<rparr>"
    and usnd: "snd (checkUniques s (m, g)) = snd (checkUniques_loop m (M_Uniques m) {} ([], g))"
    by (simp_all add: checkUniques_def split: prod.splits)
  have inames: "M_Indexes (fst (checkIndexes s (m, g)))
      = map (\<lambda>f. f\<lparr>I_Name := M_Name m @ ''___'' @ join ''___'' (I_Columns f) @ ''___idx''\<rparr>) (M_Indexes m)"
    by (simp add: ifst checkIndexes_loop_fst makeName_def)
  have unames: "M_Uniques (fst (checkUniques s (m, g)))
      = map (\<lambda>f. f\<lparr>U_Name := M_Name m @ ''___'' @ join ''___'' (U_Columns f) @ ''___key''\<rparr>) (M_Uniques m)"
    by (simp add: ufst checkUniques_loop_fst makeName_def)
  have itwice: "\<forall>i j. i < j \<and> j < length (M_Indexes m) \<and> I_Columns (M_Indexes m ! i) = I_Columns (M_Indexes m ! j) \<longrightarrow>
         I_Name (M_Indexes (fst (checkIndexes s (m, g))) ! i) = I_Name (M_Indexes (fst (checkIndexes s (m, g))) ! j)
         \<and> msg_constraint_twice (M_Name m) ''index'' (describeIndex (I_Columns (M_Indexes m ! j)))
              \<in> set (recorded g (snd (checkIndexes s (m, g))))"
  proof (intro allI impI, elim conjE)
    fix i j
    assume ij: "i < j" "j < length (M_Indexes m)"
      and same: "I_Columns (M_Indexes m ! i) = I_Columns (M_Indexes m ! j)"
    have split: "M_Indexes m = take j (M_Indexes m) @ (M_Indexes m ! j) # drop (Suc j) (M_Indexes m)"
      using ij(2) by (rule id_take_nth_drop)
    have "M_Indexes m ! i \<in> set (take j (M_Indexes m))"
      using ij by (auto simp: in_set_conv_nth) 
    with same have "\<exists>f'\<in>set (take j (M_Indexes m)). I_Columns f' = I_Columns (M_Indexes m ! j)"
      by blast
    then have "msg_constraint_twice (M_Name m) ''index'' (describeIndex (I_Columns (M_Indexes m ! j)))
        \<in> set (drop ?k (validationErrors (snd (checkIndexes_loop m (M_Indexes m) {} ([], g)))))"
      by (intro checkIndexes_loop_twice [OF split]) simp_all
    moreover have "I_Name (M_Indexes (fst (checkIndexes s (m, g))) ! i) = I_Name (M_Indexes (fst (checkIndexes s (m, g))) ! j)"
      using ij same by (simp add: inames)
    ultimately show "I_Name (M_Indexes (fst (checkIndexes s (m, g))) ! i) = I_Name (M_Indexes (fst (checkIndexes s (m, g))) ! j)
         \<and> msg_constraint_twice (M_Name m) ''index'' (describeIndex (I_Columns (M_Indexes m ! j)))
              \<in> set (recorded g (snd (checkIndexes s (m, g))))"
      by (simp add: recorded_def isnd)
  qed
  have utwice: "\<forall>i j. i < j \<and> j < length (M_Uniques m) \<and> U_Columns (M_Uniques m ! i) = U_Columns (M_Uniques m ! j) \<longrightarrow>
         U_Name (M_Uniques (fst (checkUniques s (m, g))) ! i) = U_Name (M_Uniques (fst (checkUniques s (m, g))) ! j)
         \<and> msg_constraint_twice (M_Name m) ''unique'' (describeIndex (U_Columns (M_Uniques m ! j)))
              \<in> set (recorded g (snd (checkUniques s (m, g))))"
  proof (intro allI impI, elim conjE)
    fix i j
    assume ij: "i < j" "j < length (M_Uniques m)"
      and same: "U_Columns (M_Uniques m ! i) = U_Columns (M_Uniques m ! j)"
    have split: "M_Uniques m = take j (M_Uniques m) @ (M_Uniques m ! j) # drop (Suc j) (M_Uniques m)"
      using ij(2) by (rule id_take_nth_drop)
    have "M_Uniques m ! i \<in> set (take j (M_Uniques m))"
      using ij by (auto simp: in_set_conv_nth) 
    with same have "\<exists>f'\<in>set (take j (M_Uniques m)). U_Columns f' = U_Columns (M_Uniques m ! j)"
      by blast
    then have "msg_constraint_twice (M_Name m) ''unique'' (describeIndex (U_Columns (M_Uniques m ! j)))
        \<in> set (drop ?k (validationErrors (snd (checkUniques_loop m (M_Uniques m) {} ([], g)))))"
      by (intro checkUniques_loop_twice [OF split]) simp_all
    moreover have "U_Name (M_Uniques (fst (checkUniques s (m, g))) ! i) = U_Name (M_Uniques (fst (checkUniques s (m, g))) ! j)"
      using ij same by (simp add: unames)
    ultimately show "U_Name (M_Uniques (fst (checkUniques s (m, g))) ! i) = U_Name (M_Uniques (fst (checkUniques s (m, g))) ! j)
         \<and> msg_constraint_twice (M_Name m) ''unique'' (describeIndex (U_Columns (M_Uniques m ! j)))
              \<in> set (recorded g (snd (checkUniques s (m, g))))"
      by (simp add: recorded_def usnd)
  qed
  have iunknown: "\<forall>f n. f \<in> set (M_Indexes m) \<and> n \<in> set (I_Columns f) \<and> FindColumn m n = None \<longrightarrow>
         msg_constraint_unknown_column (M_Name m) ''index'' (describeIndex (I_Columns f)) n
              \<in> set (recorded g (snd (checkIndexes s (m, g))))"
    using checkIndexes_loop_unknown [of _ "M_Indexes m" _ m ?k "([], g)" "{}"]
    by (simp add: recorded_def isnd)
  have uunknown: "\<forall>f n. f \<in> set (M_Uniques m) \<and> n \<in> set (U_Columns f) \<and> FindColumn m n = None \<longrightarrow>
         msg_constraint_unknown_column (M_Name m) ''unique'' (describeIndex (U_Columns f)) n
              \<in> set (recorded g (snd (checkUniques s (m, g))))"
    using checkUniques_loop_unknown [of _ "M_Uniques m" _ m ?k "([], g)" "{}"]
    by (simp add: recorded_def usnd)
  show ?thesis
    by (intro conjI inames itwice iunknown unames utwice uunknown)
qed

theorem checkIndexes_names_and_duplicates_witness:
  "map I_Name (M_Indexes (fst (checkIndexes NewSchema (indexed_model, fresh))))
      = [''T___a___b___idx'', ''T___zz___idx'', ''T___a___b___idx'']
   \<and> I_Columns (M_Indexes indexed_model ! 0) = I_Columns (M_Indexes indexed_model ! 2)
   \<and> msg_constraint_twice ''T'' ''index'' ''a, b'' \<in> set (recorded fresh (snd (checkIndexes NewSchema (indexed_model, fresh))))
   \<and> FindColumn indexed_model ''zz'' = None
   \<and> msg_constraint_unknown_column ''T'' ''index'' ''zz'' ''zz''
        \<in> set (recorded fresh (snd (checkIndexes NewSchema (indexed_model, fresh))))
   \<and> map U_Name (M_Uniques (fst (checkUniques NewSchema (indexed_model, fresh)))) = [''T___b___key'', ''T___b___key'']
   \<and> msg_constraint_twice ''T'' ''unique'' ''b'' \<in> set (recorded fresh (snd (checkUniques NewSchema (indexed_model, fresh))))"
proof -
  have m: "M_Name indexed_model = ''T''"
    "M_Indexes indexed_model = [\<lparr>I_Name = [], I_Columns = [''a'', ''b'']\<rparr>, \<lparr>I_Name = [], I_Columns = [''zz'']\<rparr>,
                   \<lparr>I_Name = [], I_Columns = [''a'', ''b'']\<rparr>]"
    "M_Uniques indexed_model = [\<lparr>U_Name = [], U_Columns = [''b'']\<rparr>, \<lparr>U_Name = [], U_Columns = [''b'']\<rparr>]"
    "FindColumn indexed_model ''zz'' = None"
    by (simp_all add: indexed_model_def FindColumn_def)
  note T = checkIndexes_names_and_duplicates [of NewSchema indexed_model fresh]
  have inames: "map I_Name (M_Indexes (fst (checkIndexes NewSchema (indexed_model, fresh))))
      = [''T___a___b___idx'', ''T___zz___idx'', ''T___a___b___idx'']"
    using T by (simp add: m)
  have unames: "map U_Name (M_Uniques (fst (checkUniques NewSchema (indexed_model, fresh)))) = [''T___b___key'', ''T___b___key'']"
    using T by (simp add: m)
  have "(0::nat) < 2 \<and> 2 < length (M_Indexes indexed_model)
      \<and> I_Columns (M_Indexes indexed_model ! 0) = I_Columns (M_Indexes indexed_model ! 2) \<longrightarrow>
      msg_constraint_twice (M_Name indexed_model) ''index'' (describeIndex (I_Columns (M_Indexes indexed_model ! 2)))
        \<in> set (recorded fresh (snd (checkIndexes NewSchema (indexed_model, fresh))))"
    using T by blast
  then have itwice: "msg_constraint_twice ''T'' ''index'' ''a, b''
      \<in> set (recorded fresh (snd (checkIndexes NewSchema (indexed_model, fresh))))"
    by (simp add: m describeIndex_def)
  have "(0::nat) < 1 \<and> 1 < length (M_Uniques indexed_model)
      \<and> U_Columns (M_Uniques indexed_model ! 0) = U_Columns (M_Uniques indexed_model ! 1) \<longrightarrow>
      msg_constraint_twice (M_Name indexed_model) ''unique'' (describeIndex (U_Columns (M_Uniques indexed_model ! 1)))
        \<in> set (recorded fresh (snd (checkUniques NewSchema (indexed_model, fresh))))"
    using T by blast
  then have utwice: "msg_constraint_twice ''T'' ''unique'' ''b''
      \<in> set (recorded fresh (snd (checkUniques NewSchema (indexed_model, fresh))))"
    by (simp add: m describeIndex_def)
  have "\<lparr>I_Name = [], I_Columns = [''zz'']\<rparr> \<in> set (M_Indexes indexed_model)
      \<and> ''zz'' \<in> set (I_Columns \<lparr>I_Name = [], I_Columns = [''zz'']\<rparr>) \<and> FindColumn indexed_model ''zz'' = None \<longrightarrow>
      msg_constraint_unknown_column (M_Name indexed_model) ''index''
          (describeIndex (I_Columns \<lparr>I_Name = [], I_Columns = [''zz'']\<rparr>)) ''zz''
        \<in> set (recorded fresh (snd (checkIndexes NewSchema (indexed_model, fresh))))"
    using T by blast
  then have iunknown: "msg_constraint_unknown_column ''T'' ''index'' ''zz'' ''zz''
        \<in> set (recorded fresh (snd (checkIndexes NewSchema (indexed_model, fresh))))"
    by (simp add: m describeIndex_def)
  have same: "I_Columns (M_Indexes indexed_model ! 0) = I_Columns (M_Indexes indexed_model ! 2)"
    by (simp add: m)
  show ?thesis
    by (intro conjI inames same itwice m(4) iunknown unames utwice)
qed

section \<open>Foreign keys\<close>

text \<open>
  Claim C2. The claim says that a foreign key whose target has a primary key of
  zero columns is rejected with a diagnostic like one whose target has several.
  \<^verbatim>\<open>checkForeignKeys\<close> names the foreign key, resolves the target column when the
  target has one primary key column, and records the multi-column diagnostic when
  it has several (the target column is then the first of them); but for a target
  with an empty primary key the index expression of line 302 is out of range, and
  for a target without primary key line 299 dereferences nil: the check panics and
  returns no diagnostics.
\<close>

theorem checkForeignKeys_target_primary_key:
  "checkForeignKeys \<lparr>Types = Map.empty, Models = [''Post'' \<mapsto> post_model, ''User'' \<mapsto> user_model (Some \<lparr>PK_Columns = []\<rparr>)]\<rparr>
      (post_model, fresh) = Panic index_out_of_range
   \<and> checkForeignKeys \<lparr>Types = Map.empty, Models = [''Post'' \<mapsto> post_model, ''User'' \<mapsto> user_model None]\<rparr>
      (post_model, fresh) = Panic nil_dereference
   \<and> map_result (\<lambda>st. (M_ForeignKeys (fst st), validationErrors (snd st)))
       (checkForeignKeys \<lparr>Types = Map.empty, Models = [''Post'' \<mapsto> post_model, ''User'' \<mapsto> user_model (Some \<lparr>PK_Columns = [''id'', ''org'']\<rparr>)]\<rparr>
          (post_model, fresh))
      = Return ([\<lparr>FK_Name = ''Post___author_id___fkey'', FK_Model = ''Post'', FK_Column = ''author_id'',
                        FK_ForeignModel = ''User'', FK_ForeignColumn = ''id''\<rparr>],
                [msg_foreign_key_multi_column ''Post'' ''author_id'' ''User''])
   \<and> map_result (\<lambda>st. (M_ForeignKeys (fst st), validationErrors (snd st)))
       (checkForeignKeys \<lparr>Types = Map.empty, Models = [''Post'' \<mapsto> post_model, ''User'' \<mapsto> user_model (Some \<lparr>PK_Columns = [''id'']\<rparr>)]\<rparr>
          (post_model, fresh))
      = Return ([\<lparr>FK_Name = ''Post___author_id___fkey'', FK_Model = ''Post'', FK_Column = ''author_id'',
                        FK_ForeignModel = ''User'', FK_ForeignColumn = ''id''\<rparr>], [])"
  by (simp add: checkForeignKeys_def checkForeignKeyColumn_def FindColumn_def post_model_def user_model_def
      fresh_def makeName_def ifThen_def addError_def)

text \<open>
  Claim C3. The claim says that \<^verbatim>\<open>Schema()\<close> never crashes, in particular for a
  foreign key whose target model has no primary key or one without columns. On both
  declaration sets \<^verbatim>\<open>Schema()\<close> panics, in whichever order line 60 visits the two
  models, whatever fuel it is given.
\<close>

theorem Schema_panics_on_foreign_key_target:
  "Schema (ext\<lparr>ext_references := (\<lambda>i. [])\<rparr>) [''User'', ''Post''] fuel base_types
      fk_to_model_without_primary_key fresh = Panic nil_dereference
   \<and> Schema (ext\<lparr>ext_references := (\<lambda>i. [])\<rparr>) [''Post'', ''User''] fuel base_types
      fk_to_model_without_primary_key fresh = Panic nil_dereference
   \<and> Schema (ext\<lparr>ext_references := (\<lambda>i. [])\<rparr>) [''User'', ''Post''] fuel base_types
      fk_to_model_with_empty_primary_key fresh = Panic index_out_of_range
   \<and> Schema (ext\<lparr>ext_references := (\<lambda>i. [])\<rparr>) [''Post'', ''User''] fuel base_types
      fk_to_model_with_empty_primary_key fresh = Panic index_out_of_range"
  by (simp add: run_defs fk_to_model_without_primary_key_def fk_to_model_with_empty_primary_key_def)

section \<open>Reasoning about makeModel\<close>

text \<open>
  One rule for case analysis and induction over \<^verbatim>\<open>makeModel\<close>: a case for every way
  through the loop body, each with the equation that the body satisfies on it.
\<close>

lemma makeModel_branches [case_names Nil unknown base no_struct no_fuel struct_panics struct_exhausted struct primaryKey index unique foreignKey]:
  fixes P :: "nat \<Rightarrow> schema_Schema \<Rightarrow> ModelItem list \<Rightarrow> string \<Rightarrow> bool \<Rightarrow> schema_Model \<times> globals \<Rightarrow> bool"
  assumes Nil: "\<And>fuel s p fn st. P fuel s [] p fn st"
    and unknown: "\<And>fuel s n tn fl items p fn st.
        Types s tn = None \<Longrightarrow>
        makeModel fuel s (field n tn fl # items) p fn st
          = makeModel fuel s items p fn
              (apsnd (addError (msg_field_unknown_type (M_Name (fst st)) (p @ n) tn)) st) \<Longrightarrow>
        P fuel s items p fn (apsnd (addError (msg_field_unknown_type (M_Name (fst st)) (p @ n) tn)) st) \<Longrightarrow>
        P fuel s (field n tn fl # items) p fn st"
    and base: "\<And>fuel s n tn fl items p fn st t.
        Types s tn = Some t \<Longrightarrow> \<forall>sn. t \<noteq> Struct sn \<Longrightarrow>
        makeModel fuel s (field n tn fl # items) p fn st
          = makeModel fuel s items p fn
              (apfst (appendColumn (baseColumn (p @ n) t (isNullable fl \<or> fn))) (appendField n t fl p fn st)) \<Longrightarrow>
        P fuel s items p fn
          (apfst (appendColumn (baseColumn (p @ n) t (isNullable fl \<or> fn))) (appendField n t fl p fn st)) \<Longrightarrow>
        P fuel s (field n tn fl # items) p fn st"
    and no_struct: "\<And>fuel s n tn fl items p fn st sn.
        Types s tn = Some (Struct sn) \<Longrightarrow>
        \<forall>e sitems. typesByName (snd st) tn = Some e \<longrightarrow> te_info e \<noteq> structType sitems \<Longrightarrow>
        makeModel fuel s (field n tn fl # items) p fn st = Panic interface_conversion \<Longrightarrow>
        P fuel s (field n tn fl # items) p fn st"
    and no_fuel: "\<And>s n tn fl items p fn st sn e sitems.
        Types s tn = Some (Struct sn) \<Longrightarrow> typesByName (snd st) tn = Some e \<Longrightarrow>
        te_info e = structType sitems \<Longrightarrow>
        makeModel 0 s (field n tn fl # items) p fn st = Exhausted \<Longrightarrow>
        P 0 s (field n tn fl # items) p fn st"
    and struct_panics: "\<And>k s n tn fl items p fn st sn e sitems q.
        Types s tn = Some (Struct sn) \<Longrightarrow> typesByName (snd st) tn = Some e \<Longrightarrow>
        te_info e = structType sitems \<Longrightarrow>
        makeModel k s sitems (p @ n @ ''.'') (isNullable fl \<or> fn) (appendField n (Struct sn) fl p fn st)
          = Panic q \<Longrightarrow>
        makeModel (Suc k) s (field n tn fl # items) p fn st = Panic q \<Longrightarrow>
        P k s sitems (p @ n @ ''.'') (isNullable fl \<or> fn) (appendField n (Struct sn) fl p fn st) \<Longrightarrow>
        P (Suc k) s (field n tn fl # items) p fn st"
    and struct_exhausted: "\<And>k s n tn fl items p fn st sn e sitems.
        Types s tn = Some (Struct sn) \<Longrightarrow> typesByName (snd st) tn = Some e \<Longrightarrow>
        te_info e = structType sitems \<Longrightarrow>
        makeModel k s sitems (p @ n @ ''.'') (isNullable fl \<or> fn) (appendField n (Struct sn) fl p fn st)
          = Exhausted \<Longrightarrow>
        makeModel (Suc k) s (field n tn fl # items) p fn st = Exhausted \<Longrightarrow>
        P k s sitems (p @ n @ ''.'') (isNullable fl \<or> fn) (appendField n (Struct sn) fl p fn st) \<Longrightarrow>
        P (Suc k) s (field n tn fl # items) p fn st"
    and struct: "\<And>k s n tn fl items p fn st sn e sitems st'.
        Types s tn = Some (Struct sn) \<Longrightarrow> typesByName (snd st) tn = Some e \<Longrightarrow>
        te_info e = structType sitems \<Longrightarrow>
        makeModel k s sitems (p @ n @ ''.'') (isNullable fl \<or> fn) (appendField n (Struct sn) fl p fn st)
          = Return st' \<Longrightarrow>
        makeModel (Suc k) s (field n tn fl # items) p fn st
          = makeModel (Suc k) s items p fn
              (if isNullable fl then apfst (appendColumn (presenceColumn (p @ n) fn)) st' else st') \<Longrightarrow>
        P k s sitems (p @ n @ ''.'') (isNullable fl \<or> fn) (appendField n (Struct sn) fl p fn st) \<Longrightarrow>
        P (Suc k) s items p fn (if isNullable fl then apfst (appendColumn (presenceColumn (p @ n) fn)) st' else st') \<Longrightarrow>
        P (Suc k) s (field n tn fl # items) p fn st"
    and primaryKey: "\<And>fuel s names items p fn st.
        P fuel s items p fn
          ((fst st)\<lparr>M_PrimaryKey := Some \<lparr>PK_Columns = undotAll (prefixAll names p)\<rparr>\<rparr>,
           ifThen (M_PrimaryKey (fst st) \<noteq> None) (addError (msg_multiple_primary_keys (M_Name (fst st)))) (snd st)) \<Longrightarrow>
        P fuel s (primaryKey names # items) p fn st"
    and index: "\<And>fuel s names items p fn st.
        P fuel s items p fn
          ((fst st)\<lparr>M_Indexes := M_Indexes (fst st) @ [\<lparr>I_Name = [], I_Columns = undotAll (prefixAll names p)\<rparr>]\<rparr>, snd st) \<Longrightarrow>
        P fuel s (index names # items) p fn st"
    and unique: "\<And>fuel s names items p fn st.
        P fuel s items p fn
          ((fst st)\<lparr>M_Uniques := M_Uniques (fst st) @ [\<lparr>U_Name = [], U_Columns = undotAll (prefixAll names p)\<rparr>]\<rparr>, snd st) \<Longrightarrow>
        P fuel s (unique names # items) p fn st"
    and foreignKey: "\<And>fuel s columnName foreignModelName items p fn st.
        P fuel s items p fn
          ((fst st)\<lparr>M_ForeignKeys := M_ForeignKeys (fst st) @
             [\<lparr>FK_Name = [], FK_Model = M_Name (fst st), FK_Column = undot (p @ columnName),
               FK_ForeignModel = foreignModelName, FK_ForeignColumn = []\<rparr>]\<rparr>, snd st) \<Longrightarrow>
        P fuel s (foreignKey columnName foreignModelName # items) p fn st"
  shows "P fuel s items p fn st"
proof (induction fuel s items p fn st rule: makeModel.induct)
  case (1 fuel s prefix forceNullable st)
  show ?case by (rule Nil)
next
  case (2 fuel s n tn fl items p fn st)
  show ?case
  proof (cases "Types s tn")
    case None
    show ?thesis
      by (rule unknown [OF None]) (simp_all add: None "2.IH"(1))
  next
    case (Some t)
    show ?thesis
    proof (cases "\<exists>sn. t = Struct sn")
      case False
      then have ns: "\<forall>sn. t \<noteq> Struct sn" by simp
      have eq: "makeModel fuel s (field n tn fl # items) p fn st
          = makeModel fuel s items p fn
              (apfst (appendColumn (baseColumn (p @ n) t (isNullable fl \<or> fn))) (appendField n t fl p fn st))"
        using Some ns by (cases t) simp_all
      have "P fuel s items p fn
          (apfst (appendColumn (baseColumn (p @ n) t (isNullable fl \<or> fn))) (appendField n t fl p fn st))"
        using Some ns "2.IH"(4) "2.IH"(5) by (cases t) simp_all
      then show ?thesis
        by (rule base [OF Some ns eq])
    next
      case True
      then obtain sn where t: "t = Struct sn" by blast
      note T = Some [unfolded t]
      show ?thesis
      proof (cases "\<exists>e sitems. typesByName (snd st) tn = Some e \<and> te_info e = structType sitems")
        case False
        then have none: "\<forall>e sitems. typesByName (snd st) tn = Some e \<longrightarrow> te_info e \<noteq> structType sitems"
          by blast
        have "makeModel fuel s (field n tn fl # items) p fn st = Panic interface_conversion"
          using T none by (auto split: option.splits typeInfo.splits)
        then show ?thesis
          by (rule no_struct [OF T none])
      next
        case True
        then obtain e sitems where e: "typesByName (snd st) tn = Some e" and i: "te_info e = structType sitems"
          by blast
        show ?thesis
        proof (cases fuel)
          case 0
          have "makeModel 0 s (field n tn fl # items) p fn st = Exhausted"
            using T e i by simp
          then show ?thesis
            unfolding 0 by (rule no_fuel [OF T e i])
        next
          case (Suc k)
          have e': "typesByName (snd (appendField n (Struct sn) fl p fn st)) tn = Some e"
            using e by simp
          have inner: "P k s sitems (p @ n @ ''.'') (isNullable fl \<or> fn) (appendField n (Struct sn) fl p fn st)"
            using "2.IH"(2) [OF T refl e' i Suc] .
          show ?thesis
          proof (cases "makeModel k s sitems (p @ n @ ''.'') (isNullable fl \<or> fn) (appendField n (Struct sn) fl p fn st)")
            case (Return st')
            have eq: "makeModel (Suc k) s (field n tn fl # items) p fn st
                = makeModel (Suc k) s items p fn
                    (if isNullable fl then apfst (appendColumn (presenceColumn (p @ n) fn)) st' else st')"
              using T e' i Return by simp
            have "P (Suc k) s items p fn
                    (if isNullable fl then apfst (appendColumn (presenceColumn (p @ n) fn)) st' else st')"
              using "2.IH"(3) [OF T refl e' i Suc Return] Suc by simp
            then show ?thesis
              unfolding Suc by (rule struct [OF T e i Return eq inner])
          next
            case (Panic q)
            have eq: "makeModel (Suc k) s (field n tn fl # items) p fn st = Panic q"
              using T e' i Panic by simp
            show ?thesis
              unfolding Suc by (rule struct_panics [OF T e i Panic eq inner])
          next
            case Exhausted
            have eq: "makeModel (Suc k) s (field n tn fl # items) p fn st = Exhausted"
              using T e' i Exhausted by simp
            show ?thesis
              unfolding Suc by (rule struct_exhausted [OF T e i Exhausted eq inner])
          qed
        qed
      qed
    qed
  qed
next
  case (3 fuel s names items prefix forceNullable st)
  then show ?case by (intro primaryKey)
next
  case (4 fuel s names items prefix forceNullable st)
  then show ?case by (intro index)
next
  case (5 fuel s names items prefix forceNullable st)
  then show ?case by (intro unique)
next
  case (6 fuel s columnName foreignModelName items prefix forceNullable st)
  then show ?case by (intro foreignKey)
qed

lemma makeModel_Cons:
  "makeModel fuel s (i # items) p fn st =
     (case makeModel fuel s [i] p fn st of
        Return st' \<Rightarrow> makeModel fuel s items p fn st'
      | Panic q \<Rightarrow> Panic q
      | Exhausted \<Rightarrow> Exhausted)"
  by (cases i) (simp_all split: option.splits schema_Type.splits typeInfo.splits nat.splits result.splits)

lemma makeModel_append:
  "makeModel fuel s (xs @ ys) p fn st =
     (case makeModel fuel s xs p fn st of
        Return st' \<Rightarrow> makeModel fuel s ys p fn st'
      | Panic q \<Rightarrow> Panic q
      | Exhausted \<Rightarrow> Exhausted)"
proof (induction xs arbitrary: st)
  case Nil
  then show ?case by simp
next
  case (Cons x xs)
  show ?case
    by (simp only: append_Cons makeModel_Cons [of fuel s x "xs @ ys"] makeModel_Cons [of fuel s x xs] Cons.IH
        split: result.splits) simp
qed

lemma M_appendField [simp]:
  "M_Name (fst (appendField n t flags p fn st)) = M_Name (fst st)"
  "M_PrimaryKey (fst (appendField n t flags p fn st)) = M_PrimaryKey (fst st)"
  "M_Columns (fst (appendField n t flags p fn st)) = M_Columns (fst st)"
  by (cases st; simp add: appendField_def split: prod.splits)+

lemma M_appendColumn [simp]:
  "M_Name (appendColumn c m) = M_Name m"
  "M_PrimaryKey (appendColumn c m) = M_PrimaryKey m"
  "M_Columns (appendColumn c m) = M_Columns m @ [c]"
  by (simp_all add: appendColumn_def)

lemma makeModel_M_Name:
  "makeModel fuel s items p fn st = Return st' \<Longrightarrow> M_Name (fst st') = M_Name (fst st)"
proof (induction fuel s items p fn st arbitrary: st' rule: makeModel_branches)
  case (struct k s n tn fl items p fn st sn e sitems st1)
  then show ?case by (simp split: if_splits)
qed simp_all

lemma makeModel_typesByName:
  "makeModel fuel s items p fn st = Return st' \<Longrightarrow> typesByName (snd st') = typesByName (snd st)"
proof (induction fuel s items p fn st arbitrary: st' rule: makeModel_branches)
  case (struct k s n tn fl items p fn st sn e sitems st1)
  then show ?case by (simp split: if_splits)
qed simp_all

lemma makeModel_PrimaryKey_stays:
  "makeModel fuel s items p fn st = Return st' \<Longrightarrow> M_PrimaryKey (fst st) \<noteq> None \<Longrightarrow> M_PrimaryKey (fst st') \<noteq> None"
proof (induction fuel s items p fn st arbitrary: st' rule: makeModel_branches)
  case (struct k s n tn fl items p fn st sn e sitems st1)
  then show ?case by (simp split: if_splits)
qed simp_all

lemma makeModel_appends:
  assumes "makeModel fuel s items p fn st = Return st'"
  shows "validationErrors (snd st') = validationErrors (snd st) @ recorded (snd st) (snd st')"
proof -
  have "apsnd (earlier (validationErrors (snd st))) (fst st, (snd st)\<lparr>validationErrors := []\<rparr>) = st"
    by (cases st) (simp add: earlier_def)
  then have "makeModel fuel s items p fn st
      = map_result (apsnd (earlier (validationErrors (snd st))))
          (makeModel fuel s items p fn (fst st, (snd st)\<lparr>validationErrors := []\<rparr>))"
    using makeModel_earlier [of fuel s items p fn "validationErrors (snd st)" "(fst st, (snd st)\<lparr>validationErrors := []\<rparr>)"]
    by simp
  with assms obtain st'' where "st' = apsnd (earlier (validationErrors (snd st))) st''"
    by (auto simp: map_result_Return)
  then show ?thesis
    by (cases st'') (simp add: recorded_def)
qed

lemma makeModel_PrimaryKey_unchanged:
  "makeModel fuel s items p fn st = Return st' \<Longrightarrow> list_all (declares_no_primary_key s) items \<Longrightarrow>
     M_PrimaryKey (fst st') = M_PrimaryKey (fst st)"
proof (induction fuel s items p fn st arbitrary: st' rule: makeModel_branches)
  case (struct k s n tn fl items p fn st sn e sitems st1)
  then show ?case by (simp split: if_splits)
qed simp_all

lemma makeModel_append_Return:
  assumes "makeModel fuel s (xs @ ys) p fn st = Return st'"
  obtains st1 where "makeModel fuel s xs p fn st = Return st1" and "makeModel fuel s ys p fn st1 = Return st'"
  using assms by (cases "makeModel fuel s xs p fn st") (simp_all add: makeModel_append)

section \<open>Several primary keys\<close>

text \<open>
  Claim C4, as the claim states it, fails: of two primary key declarations the
  model keeps the second, not the first (line 189 assigns whether or not line 186
  found a primary key).
\<close>

theorem makeModel_second_primary_key_kept:
  "map_result (\<lambda>st. (M_PrimaryKey (fst st), validationErrors (snd st)))
     (makeModel 0 NewSchema [primaryKey [''a''], primaryKey [''b'']] [] False (newModel ''M'', fresh))
   = Return (Some \<lparr>PK_Columns = [''b'']\<rparr>, [msg_multiple_primary_keys ''M''])"
  by (simp add: newModel_def fresh_def undotAll_def prefixAll_def undot_def ifThen_def addError_def)

text \<open>
  Claim C4, amended. When the items of a model hold a primary key declaration
  \<^verbatim>\<open>a\<close> and later a primary key declaration \<^verbatim>\<open>b\<close>, the model has a primary key when
  \<^verbatim>\<open>b\<close> is reached, \<^verbatim>\<open>b\<close> records the diagnostic of multiple primary key definitions
  and replaces the primary key; when no later item declares a primary key, the
  primary key kept on the model is \<^verbatim>\<open>b\<close>, the last one declared.
\<close>

theorem makeModel_multiple_primary_keys:
  assumes run: "makeModel fuel s (xs @ primaryKey a # ys @ primaryKey b # zs) p fn (m, g) = Return (m', g')"
  shows "\<exists>m1 g1. makeModel fuel s (xs @ primaryKey a # ys) p fn (m, g) = Return (m1, g1)
      \<and> M_PrimaryKey m1 \<noteq> None
      \<and> makeModel fuel s (xs @ primaryKey a # ys @ [primaryKey b]) p fn (m, g)
          = Return (m1\<lparr>M_PrimaryKey := Some \<lparr>PK_Columns = undotAll (prefixAll b p)\<rparr>\<rparr>,
                    addError (msg_multiple_primary_keys (M_Name m)) g1)
      \<and> msg_multiple_primary_keys (M_Name m) \<in> set (recorded g g')
      \<and> (list_all (declares_no_primary_key s) zs \<longrightarrow>
            M_PrimaryKey m' = Some \<lparr>PK_Columns = undotAll (prefixAll b p)\<rparr>)"
proof -
  have "makeModel fuel s ((xs @ primaryKey a # ys) @ primaryKey b # zs) p fn (m, g) = Return (m', g')"
    using run by simp
  then obtain st1 where
    first: "makeModel fuel s (xs @ primaryKey a # ys) p fn (m, g) = Return st1"
    and rest: "makeModel fuel s (primaryKey b # zs) p fn st1 = Return (m', g')"
    by (rule makeModel_append_Return)
  from first obtain st0 where
    before: "makeModel fuel s xs p fn (m, g) = Return st0"
    and a: "makeModel fuel s (primaryKey a # ys) p fn st0 = Return st1"
    by (rule makeModel_append_Return)
  let ?st0 = "((fst st0)\<lparr>M_PrimaryKey := Some \<lparr>PK_Columns = undotAll (prefixAll a p)\<rparr>\<rparr>,
               ifThen (M_PrimaryKey (fst st0) \<noteq> None) (addError (msg_multiple_primary_keys (M_Name (fst st0)))) (snd st0))"
  have a': "makeModel fuel s ys p fn ?st0 = Return st1"
    using a by simp
  have set1: "M_PrimaryKey (fst st1) \<noteq> None"
    by (rule makeModel_PrimaryKey_stays [OF a']) simp
  have name1: "M_Name (fst st1) = M_Name m"
    using makeModel_M_Name [OF first] by simp
  let ?m2 = "(fst st1)\<lparr>M_PrimaryKey := Some \<lparr>PK_Columns = undotAll (prefixAll b p)\<rparr>\<rparr>"
  let ?g2 = "addError (msg_multiple_primary_keys (M_Name m)) (snd st1)"
  have b: "makeModel fuel s [primaryKey b] p fn st1 = Return (?m2, ?g2)"
    using set1 name1 by (simp add: ifThen_def)
  have "makeModel fuel s ((xs @ primaryKey a # ys) @ [primaryKey b]) p fn (m, g) = Return (?m2, ?g2)"
    by (simp only: makeModel_append [of fuel s "xs @ primaryKey a # ys" "[primaryKey b]"] first b result.case)
  then have upto: "makeModel fuel s (xs @ primaryKey a # ys @ [primaryKey b]) p fn (m, g) = Return (?m2, ?g2)"
    by simp
  have tail: "makeModel fuel s zs p fn (?m2, ?g2) = Return (m', g')"
    using rest set1 name1 by (simp add: ifThen_def)
  have e1: "validationErrors (snd st1) = validationErrors g @ recorded g (snd st1)"
    using makeModel_appends [OF first] by simp
  have e2: "validationErrors g' = validationErrors ?g2 @ recorded ?g2 g'"
    using makeModel_appends [OF tail] by simp
  have "validationErrors ?g2 = validationErrors g @ recorded g (snd st1) @ [msg_multiple_primary_keys (M_Name m)]"
    using e1 by simp
  then have "validationErrors g' = validationErrors g @ (recorded g (snd st1) @ [msg_multiple_primary_keys (M_Name m)] @ recorded ?g2 g')"
    using e2 by simp
  then have "recorded g g' = recorded g (snd st1) @ [msg_multiple_primary_keys (M_Name m)] @ recorded ?g2 g'"
    by (rule recorded_append)
  then have rec: "msg_multiple_primary_keys (M_Name m) \<in> set (recorded g g')"
    by simp
  have kept: "list_all (declares_no_primary_key s) zs \<longrightarrow>
            M_PrimaryKey m' = Some \<lparr>PK_Columns = undotAll (prefixAll b p)\<rparr>"
    using makeModel_PrimaryKey_unchanged [OF tail] by simp
  have first': "makeModel fuel s (xs @ primaryKey a # ys) p fn (m, g) = Return (fst st1, snd st1)"
    using first by simp
  show ?thesis
    by (intro exI [of _ "fst st1"] exI [of _ "snd st1"] conjI first' set1 upto rec kept)
qed

theorem makeModel_multiple_primary_keys_witness:
  "makeModel 0 NewSchema ([] @ primaryKey [''a''] # [] @ primaryKey [''b''] # [index [''b'']]) [] False (newModel ''M'', fresh)
     = Return ((newModel ''M'')\<lparr>M_PrimaryKey := Some \<lparr>PK_Columns = [''b'']\<rparr>,
                                 M_Indexes := [\<lparr>I_Name = [], I_Columns = [''b'']\<rparr>]\<rparr>,
               addError (msg_multiple_primary_keys ''M'') fresh)
   \<and> msg_multiple_primary_keys ''M'' \<in> set (recorded fresh (addError (msg_multiple_primary_keys ''M'') fresh))
   \<and> list_all (declares_no_primary_key NewSchema) [index [''b'']]
   \<and> M_PrimaryKey ((newModel ''M'')\<lparr>M_PrimaryKey := Some \<lparr>PK_Columns = [''b'']\<rparr>,
                                      M_Indexes := [\<lparr>I_Name = [], I_Columns = [''b'']\<rparr>]\<rparr>)
       = Some \<lparr>PK_Columns = undotAll (prefixAll [''b''] [])\<rparr>"
proof -
  have run: "makeModel 0 NewSchema ([] @ primaryKey [''a''] # [] @ primaryKey [''b''] # [index [''b'']]) [] False (newModel ''M'', fresh)
     = Return ((newModel ''M'')\<lparr>M_PrimaryKey := Some \<lparr>PK_Columns = [''b'']\<rparr>,
                                 M_Indexes := [\<lparr>I_Name = [], I_Columns = [''b'']\<rparr>]\<rparr>,
               addError (msg_multiple_primary_keys ''M'') fresh)"
    by (simp add: newModel_def undotAll_def prefixAll_def undot_def ifThen_def)
  have none: "list_all (declares_no_primary_key NewSchema) [index [''b'']]"
    by simp
  show ?thesis
    using makeModel_multiple_primary_keys [OF run] run none
    by (simp add: newModel_def)
qed

section \<open>Flattening of struct fields\<close>

lemma member_column_nest:
  "member_column p fn (nest n b x) = member_column (p @ n @ ''.'') (b \<or> fn) x"
  by (cases x) auto

lemma makeModel_Columns:
  "makeModel fuel s items p fn st = Return st' \<Longrightarrow>
     M_Columns (fst st') = M_Columns (fst st) @ map (member_column p fn) (members fuel s (typesByName (snd st)) items)"
proof (induction fuel s items p fn st arbitrary: st' rule: makeModel_branches)
  case (base fuel s n tn fl items p fn st t)
  then show ?case by (cases t) simp_all
next
  case (struct k s n tn fl items p fn st sn e sitems st1)
  have "typesByName (snd st1) = typesByName (snd st)"
    using makeModel_typesByName [OF struct(4)] by simp
  with struct show ?case
    by (simp add: member_column_nest comp_def del: makeModel.simps(2))
qed (simp_all del: makeModel.simps(2))

lemma undot_append: "undot (a @ b) = undot a @ undot b"
  by (simp add: undot_def)

lemma undot_dot: "undot (CHR ''.'' # a) = ''__'' @ undot a"
  by (simp add: undot_def)

lemma member_column_nested:
  "member_column [] False (nest f True x) = nested_column f x"
  by (cases x) (simp_all add: baseColumn_def presenceColumn_def undot_append undot_dot)

lemma length_members:
  "length ms = length (filter is_Leaf ms) + length (filter (\<lambda>x. \<not> is_Leaf x) ms)"
  by (induction ms) auto

text \<open>
  Claim C5, amended. For a top-level field \<^verbatim>\<open>f\<close> of a nullable struct type,
  \<^verbatim>\<open>makeModel\<close> appends one column for every leaf member of the struct and one for
  every nullable struct-typed member inside it, each nullable and named by \<^verbatim>\<open>f\<close> and
  the member path joined with double underscores, and last the presence column of
  \<^verbatim>\<open>f\<close> itself, named \<^verbatim>\<open>f\<close> and not nullable: N + K + 1 columns for N leaf members
  and K nullable struct-typed members, which is N + 1 when no member of struct type
  is nullable.
\<close>

theorem makeModel_nullable_struct_field:
  assumes run: "makeModel fuel s [field f tn fl] [] False (m, g) = Return (m', g')"
    and nullable: "isNullable fl"
    and struct: "Types s tn = Some (Struct sn)"
  shows "\<exists>k e sitems. fuel = Suc k \<and> typesByName g tn = Some e \<and> te_info e = structType sitems
     \<and> M_Columns m' = M_Columns m @ map (nested_column f) (members k s (typesByName g) sitems)
                          @ [presenceColumn f False]
     \<and> length (M_Columns m') = length (M_Columns m)
          + length (filter is_Leaf (members k s (typesByName g) sitems))
          + length (filter (\<lambda>x. \<not> is_Leaf x) (members k s (typesByName g) sitems)) + 1
     \<and> C_Name (presenceColumn f False) = undot f
     \<and> C_Nullable (presenceColumn f False) = False"
proof -
  from run struct obtain e sitems where e: "typesByName g tn = Some e" and i: "te_info e = structType sitems"
    by (auto split: option.splits typeInfo.splits)
  from run struct e i obtain k where k: "fuel = Suc k"
    by (cases fuel) auto
  have ms: "members fuel s (typesByName g) [field f tn fl]
      = map (nest f True) (members k s (typesByName g) sitems) @ [Group f False]"
    using struct e i k nullable by simp
  have "M_Columns m' = M_Columns m
      @ map (member_column [] False) (map (nest f True) (members k s (typesByName g) sitems) @ [Group f False])"
    using makeModel_Columns [OF run, unfolded snd_conv fst_conv ms] .
  then have cols: "M_Columns m' = M_Columns m @ map (nested_column f) (members k s (typesByName g) sitems)
                          @ [presenceColumn f False]"
    by (simp add: comp_def member_column_nested)
  have len: "length (M_Columns m') = length (M_Columns m)
          + length (filter is_Leaf (members k s (typesByName g) sitems))
          + length (filter (\<lambda>x. \<not> is_Leaf x) (members k s (typesByName g) sitems)) + 1"
    using length_members [of "members k s (typesByName g) sitems"] by (simp add: cols)
  have pres: "C_Name (presenceColumn f False) = undot f" "C_Nullable (presenceColumn f False) = False"
    by (simp_all add: presenceColumn_def)
  show ?thesis
    by (intro exI [of _ k] exI [of _ e] exI [of _ sitems] conjI k e i cols len pres)
qed

lemmas flatten_defs =
  nested_types_def NewSchema_def fresh_def newModel_def ifThen_def addError_def appendField_def
  makeTags_def appendColumn_def baseColumn_def presenceColumn_def undot_def field_context_def

theorem makeModel_nullable_struct_field_witness:
  "(case Schema_registerTypes nested_types (NewSchema, fresh) of
      (s, g) \<Rightarrow>
        Types s ''Outer'' = Some (Struct ''Outer'')
        \<and> map_result (\<lambda>st. M_Columns (fst st))
             (makeModel 2 s [field ''f'' ''Outer'' [nullFlag]] [] False (newModel ''M'', g))
           = Return (map (nested_column ''f'')
                       (members 1 s (typesByName g) [field ''b'' ''Inner'' [nullFlag], field ''x'' ''int'' []])
                     @ [presenceColumn ''f'' False]))
   \<and> isNullable [nullFlag]"
proof -
  obtain s g where reg: "Schema_registerTypes nested_types (NewSchema, fresh) = (s, g)"
    by (cases "Schema_registerTypes nested_types (NewSchema, fresh)")
  have T: "Types s ''Outer'' = Some (Struct ''Outer'')"
    and tbn: "typesByName g ''Outer''
      = Some \<lparr>te_name = ''Outer'', te_info = structType [field ''b'' ''Inner'' [nullFlag], field ''x'' ''int'' []]\<rparr>"
    using reg by (auto simp: flatten_defs)
  have "\<exists>m' g'. makeModel 2 s [field ''f'' ''Outer'' [nullFlag]] [] False (newModel ''M'', g) = Return (m', g')"
    using reg by (auto simp: flatten_defs numeral_2_eq_2)
  then obtain m' g' where
    run: "makeModel 2 s [field ''f'' ''Outer'' [nullFlag]] [] False (newModel ''M'', g) = Return (m', g')"
    by blast
  have nullable: "isNullable [nullFlag]"
    by simp
  from makeModel_nullable_struct_field [OF run nullable T]
  have "M_Columns m' = map (nested_column ''f'')
                       (members 1 s (typesByName g) [field ''b'' ''Inner'' [nullFlag], field ''x'' ''int'' []])
                     @ [presenceColumn ''f'' False]"
    by (auto simp: tbn newModel_def numeral_2_eq_2)
  with run T nullable show ?thesis
    by (simp add: reg)
qed

text \<open>
  Claim C5, as the claim states it, fails: the struct Outer has two leaf members,
  \<^verbatim>\<open>b.y\<close> and \<^verbatim>\<open>x\<close>, and a nullable field of type Outer yields four columns, not
  three, because the nullable member \<^verbatim>\<open>b\<close> of struct type has a presence column of its
  own.
\<close>

theorem makeModel_nested_nullable_struct:
  "(case Schema_registerTypes nested_types (NewSchema, fresh) of
      (s, g) \<Rightarrow>
        (map_result (\<lambda>st. map C_Name (M_Columns (fst st)))
           (makeModel 2 s [field ''f'' ''Outer'' [nullFlag]] [] False (newModel ''M'', g)),
         map (\<lambda>x. case x of Leaf path t nul \<Rightarrow> path | Group path nul \<Rightarrow> [])
           (filter is_Leaf
              (members 1 s (typesByName g) [field ''b'' ''Inner'' [nullFlag], field ''x'' ''int'' []]))))
   = (Return [''f__b__y'', ''f__b'', ''f__x'', ''f''], [''b.y'', ''x''])"
  by (simp add: flatten_defs numeral_2_eq_2)

section \<open>Termination of the flattening\<close>






lemma Schema_registerTypes_Models:
  "Models (fst (Schema_registerTypes ts st)) = Models (fst st)"
  by (induction ts arbitrary: st) auto

lemma typesByName_Schema_lookups [simp]:
  "typesByName (Schema_lookups s tn rs g) = typesByName g"
  by (induction s tn rs g rule: Schema_lookups.induct) simp_all

lemma typesByName_Schema_resolveTypes [simp]:
  "typesByName (Schema_resolveTypes ext s ts g) = typesByName g"
  by (induction ts arbitrary: g) simp_all














section \<open>Running the validation twice\<close>

lemma typesByName_checkDuplicateFields_loop [simp]:
  "typesByName (checkDuplicateFields_loop m fs seen g) = typesByName g"
  by (induction m fs seen g rule: checkDuplicateFields_loop.induct) simp_all

lemma typesByName_checkPrimaryKey_loop [simp]:
  "typesByName (checkPrimaryKey_loop m ns g) = typesByName g"
  by (induction m ns g rule: checkPrimaryKey_loop.induct) (simp_all split: option.splits)

lemma typesByName_checkPrimaryKey [simp]:
  "typesByName (checkPrimaryKey s m g) = typesByName g"
  by (simp add: checkPrimaryKey_def split: option.splits)

lemma typesByName_checkColumns_loop [simp]:
  "typesByName (checkColumns_loop m kind cols ns g) = typesByName g"
  by (induction m kind cols ns g rule: checkColumns_loop.induct) (simp_all split: option.splits)

lemma typesByName_checkIndexes_loop [simp]:
  "typesByName (snd (checkIndexes_loop m fs seen st)) = typesByName (snd st)"
  by (induction m fs seen st rule: checkIndexes_loop.induct) simp_all

lemma typesByName_checkUniques_loop [simp]:
  "typesByName (snd (checkUniques_loop m fs seen st)) = typesByName (snd st)"
  by (induction m fs seen st rule: checkUniques_loop.induct) simp_all

lemma checkIndexes_fst_snd:
  "fst (checkIndexes s st) = (fst st)\<lparr>M_Indexes := fst (checkIndexes_loop (fst st) (M_Indexes (fst st)) {} ([], snd st))\<rparr>"
  "snd (checkIndexes s st) = snd (checkIndexes_loop (fst st) (M_Indexes (fst st)) {} ([], snd st))"
  by (simp_all add: checkIndexes_def split: prod.splits)

lemma checkUniques_fst_snd:
  "fst (checkUniques s st) = (fst st)\<lparr>M_Uniques := fst (checkUniques_loop (fst st) (M_Uniques (fst st)) {} ([], snd st))\<rparr>"
  "snd (checkUniques s st) = snd (checkUniques_loop (fst st) (M_Uniques (fst st)) {} ([], snd st))"
  by (simp_all add: checkUniques_def split: prod.splits)

lemma checkIndexes_frame [simp]:
  "typesByName (snd (checkIndexes s st)) = typesByName (snd st)"
  "M_PrimaryKey (fst (checkIndexes s st)) = M_PrimaryKey (fst st)"
  "M_ForeignKeys (fst (checkIndexes s st)) = M_ForeignKeys (fst st)"
  "M_Name (fst (checkIndexes s st)) = M_Name (fst st)"
  "M_Columns (fst (checkIndexes s st)) = M_Columns (fst st)"
  by (simp_all add: checkIndexes_fst_snd)

lemma checkUniques_frame [simp]:
  "typesByName (snd (checkUniques s st)) = typesByName (snd st)"
  "M_PrimaryKey (fst (checkUniques s st)) = M_PrimaryKey (fst st)"
  "M_ForeignKeys (fst (checkUniques s st)) = M_ForeignKeys (fst st)"
  "M_Name (fst (checkUniques s st)) = M_Name (fst st)"
  "M_Columns (fst (checkUniques s st)) = M_Columns (fst st)"
  by (simp_all add: checkUniques_fst_snd)

lemma typesByName_checkForeignKeyColumn [simp]:
  "typesByName (checkForeignKeyColumn m f g) = typesByName g"
  by (simp add: checkForeignKeyColumn_def split: option.splits)
















end
